theory Spec2Isabelle
  imports Main
begin

section \<open>Python values\<close>

text \<open>
  The module \<^verbatim>\<open>plugins/modules/replicationrule.py\<close> handles JSON-like Python values:
  the module parameters, and the dictionaries the PowerStore SDK returns.  A value is
  \<^verbatim>\<open>None\<close>, a bool, an int, a str or a list of values; a dictionary is an association
  list from keys to values, read with \<open>map_of\<close> (a Python dict has each key once).
  Strings are sequences of code points below 256.
\<close>

datatype pyval = PNone | PBool bool | PInt int | PStr string | PList "pyval list"

type_synonym pydict = "(string \<times> pyval) list"

text \<open>Python's truth value of an object (\<^verbatim>\<open>if x:\<close>, \<^verbatim>\<open>not x\<close>).\<close>

fun truthy :: "pyval \<Rightarrow> bool" where
  "truthy PNone = False"
| "truthy (PBool b) = b"
| "truthy (PInt i) = (i \<noteq> 0)"
| "truthy (PStr s) = (s \<noteq> [])"
| "truthy (PList xs) = (xs \<noteq> [])"

text \<open>
  Python's \<^verbatim>\<open>==\<close>: a bool is the int 0 or 1, lists are compared element by element,
  and values of different kinds are unequal.
\<close>

fun py_eq :: "pyval \<Rightarrow> pyval \<Rightarrow> bool"
  and py_eq_list :: "pyval list \<Rightarrow> pyval list \<Rightarrow> bool" where
  "py_eq PNone v = (v = PNone)"
| "py_eq (PBool a) v =
     (case v of PBool b \<Rightarrow> a = b | PInt j \<Rightarrow> (if a then 1 else 0) = j | _ \<Rightarrow> False)"
| "py_eq (PInt i) v =
     (case v of PInt j \<Rightarrow> i = j | PBool b \<Rightarrow> i = (if b then 1 else 0) | _ \<Rightarrow> False)"
| "py_eq (PStr s) v = (case v of PStr t \<Rightarrow> s = t | _ \<Rightarrow> False)"
| "py_eq (PList xs) v = (case v of PList ys \<Rightarrow> py_eq_list xs ys | _ \<Rightarrow> False)"
| "py_eq_list [] ys = (ys = [])"
| "py_eq_list (x # xs) ys = (case ys of [] \<Rightarrow> False | y # ys' \<Rightarrow> py_eq x y \<and> py_eq_list xs ys')"

text \<open>A truthy dictionary-or-\<^verbatim>\<open>None\<close>: neither \<^verbatim>\<open>None\<close> nor empty.\<close>

fun truthy_dict :: "pydict option \<Rightarrow> bool" where
  "truthy_dict None = False"
| "truthy_dict (Some d) = (d \<noteq> [])"

text \<open>\<^verbatim>\<open>d[k] = v\<close> on a dictionary.\<close>

fun setitem :: "pydict \<Rightarrow> string \<Rightarrow> pyval \<Rightarrow> pydict" where
  "setitem [] k v = [(k, v)]"
| "setitem ((k', v') # d) k v = (if k' = k then (k, v) # d else (k', v') # setitem d k v)"

text \<open>\<^verbatim>\<open>d.get(k)\<close>: the value, or \<^verbatim>\<open>None\<close> for a missing key.\<close>

definition dict_get :: "pydict \<Rightarrow> string \<Rightarrow> pyval" where
  "dict_get d k = (case map_of d k of None \<Rightarrow> PNone | Some v \<Rightarrow> v)"

text \<open>\<^verbatim>\<open>str.strip()\<close>: the characters for which \<^verbatim>\<open>str.isspace\<close> holds are removed at both ends.\<close>

definition isspace :: "char \<Rightarrow> bool" where
  "isspace c \<longleftrightarrow> c \<in> {CHR 0x09, CHR 0x0A, CHR 0x0B, CHR 0x0C, CHR 0x0D,
     CHR 0x1C, CHR 0x1D, CHR 0x1E, CHR 0x1F, CHR 0x20, CHR 0x85, CHR 0xA0}"

definition strip :: "string \<Rightarrow> string" where
  "strip s = rev (dropWhile isspace (rev (dropWhile isspace s)))"

text \<open>A module parameter of type str or int that was not given is \<^verbatim>\<open>None\<close>.\<close>

fun of_str :: "string option \<Rightarrow> pyval" where
  "of_str None = PNone"
| "of_str (Some s) = PStr s"

fun of_int_opt :: "int option \<Rightarrow> pyval" where
  "of_int_opt None = PNone"
| "of_int_opt (Some i) = PInt i"

section \<open>Exceptions, failures and results\<close>

text \<open>
  \<^verbatim>\<open>utils.PowerStoreException\<close> carries an error code, a status code and a text.  The
  class is not part of the module's file; the module reads \<^verbatim>\<open>e.err_code\<close>,
  \<^verbatim>\<open>e.status_code\<close> and \<^verbatim>\<open>str(e)\<close>, and compares the error code with the constant
  \<^verbatim>\<open>PowerStoreException.HTTP_ERR\<close>.  The other constructors are the Python exceptions
  the module's own expressions can raise.
\<close>

datatype err_code = HTTP_ERR | OTHER_ERR nat

datatype exn =
    PowerStoreException err_code "string option" string
  | KeyError string
  | TypeError string
  | AttributeError string
  | OtherException string

text \<open>
  A message is the format string and the arguments of \<^verbatim>\<open>.format\<close>: a value, or
  \<^verbatim>\<open>str(e)\<close> of an exception.
\<close>

datatype fmt_arg = Val pyval | Exc exn

datatype message = Format string "fmt_arg list"

text \<open>
  An invocation stops early in two ways: a Python exception is raised (and may be
  caught by an enclosing \<^verbatim>\<open>except Exception\<close>), or \<^verbatim>\<open>module.fail_json\<close> ends the
  process with a message and the failure codes of an exception; \<^verbatim>\<open>fail_json\<close> exits
  through \<^verbatim>\<open>SystemExit\<close>, which \<^verbatim>\<open>except Exception\<close> does not catch.
\<close>

datatype stop = Raised exn | Fail_json message "exn option"

text \<open>The arguments of \<^verbatim>\<open>module.exit_json\<close>: \<^verbatim>\<open>changed\<close> and \<^verbatim>\<open>replication_rule_details\<close>.\<close>

record result =
  r_changed :: bool
  r_replication_rule_details :: "pydict option"

section \<open>The SDK and the module's state\<close>

text \<open>The calls the module makes on the SDK's clients, with their arguments.\<close>

datatype call =
    Get_cluster_list
  | Get_remote_system_by_name pyval "pyval option"
  | Get_remote_system_details pyval
  | Get_replication_rule_by_name pyval
  | Get_replication_rule_details pyval
  | Create_replication_rule pyval pyval pyval pyval
  | Modify_replication_rule pyval pyval pyval pyval pyval
  | Delete_replication_rule pyval

fun is_mutating :: "call \<Rightarrow> bool" where
  "is_mutating (Create_replication_rule n r s a) = True"
| "is_mutating (Modify_replication_rule i n r s a) = True"
| "is_mutating (Delete_replication_rule i) = True"
| "is_mutating c = False"

text \<open>
  The SDK (\<^verbatim>\<open>self.provisioning\<close>, \<^verbatim>\<open>self.protection\<close>) and \<^verbatim>\<open>utils.name_or_id\<close> are
  outside the module: they are parameters of the model.  A client method reads and
  changes the array's state \<open>'s\<close> and returns a value or raises.
  \<^verbatim>\<open>get_remote_system_by_name\<close> is called with one argument or with two.
\<close>

record 's sdk =
  provisioning_get_cluster_list :: "'s \<Rightarrow> (exn + pydict list) \<times> 's"
  protection_get_remote_system_by_name :: "pyval \<Rightarrow> pyval option \<Rightarrow> 's \<Rightarrow> (exn + pydict list) \<times> 's"
  protection_get_remote_system_details :: "pyval \<Rightarrow> 's \<Rightarrow> (exn + pydict) \<times> 's"
  protection_get_replication_rule_by_name :: "pyval \<Rightarrow> 's \<Rightarrow> (exn + pydict list) \<times> 's"
  protection_get_replication_rule_details :: "pyval \<Rightarrow> 's \<Rightarrow> (exn + pydict) \<times> 's"
  protection_create_replication_rule :: "pyval \<Rightarrow> pyval \<Rightarrow> pyval \<Rightarrow> pyval \<Rightarrow> 's \<Rightarrow> (exn + pydict) \<times> 's"
  protection_modify_replication_rule ::
    "pyval \<Rightarrow> pyval \<Rightarrow> pyval \<Rightarrow> pyval \<Rightarrow> pyval \<Rightarrow> 's \<Rightarrow> (exn + pydict) \<times> 's"
  protection_delete_replication_rule :: "pyval \<Rightarrow> 's \<Rightarrow> (exn + unit) \<times> 's"
  utils_name_or_id :: "pyval \<Rightarrow> string"

text \<open>
  The state of one invocation: the array behind the SDK, the SDK calls made so far,
  and the two attributes of \<^verbatim>\<open>PowerstoreReplicationRule\<close>.
\<close>

record 's world =
  bstate :: 's
  trace :: "call list"
  cluster_name :: pyval
  cluster_global_id :: pyval

definition init_world :: "'s \<Rightarrow> 's world" where
  "init_world s = \<lparr>bstate = s, trace = [], cluster_name = PStr '' '', cluster_global_id = PStr '' ''\<rparr>"

type_synonym ('s, 'a) action = "'s world \<Rightarrow> (stop + 'a) \<times> 's world"

definition ret :: "'a \<Rightarrow> ('s, 'a) action" where
  "ret x w = (Inr x, w)"

definition raise :: "exn \<Rightarrow> ('s, 'a) action" where
  "raise e w = (Inl (Raised e), w)"

definition fail_json :: "message \<Rightarrow> exn option \<Rightarrow> ('s, 'a) action" where
  "fail_json msg codes w = (Inl (Fail_json msg codes), w)"

text \<open>One statement after another: the second runs when the first has not stopped.\<close>

definition seq :: "('s, 'a) action \<Rightarrow> ('a \<Rightarrow> ('s, 'b) action) \<Rightarrow> ('s, 'b) action" where
  "seq m f w = (case m w of (Inl e, w') \<Rightarrow> (Inl e, w') | (Inr x, w') \<Rightarrow> f x w')"

text \<open>\<^verbatim>\<open>try: ... except Exception as e: ...\<close>\<close>

definition try_except :: "('s, 'a) action \<Rightarrow> (exn \<Rightarrow> ('s, 'a) action) \<Rightarrow> ('s, 'a) action" where
  "try_except m h w = (case m w of (Inl (Raised e), w') \<Rightarrow> h e w' | r \<Rightarrow> r)"

text \<open>A call of an SDK method: it is recorded, and an exception of the SDK is raised.\<close>

definition sdk_call :: "call \<Rightarrow> ('s \<Rightarrow> (exn + 'a) \<times> 's) \<Rightarrow> ('s, 'a) action" where
  "sdk_call c f w =
     (case f (bstate w) of (r, s') \<Rightarrow>
        ((case r of Inl e \<Rightarrow> Inl (Raised e) | Inr v \<Rightarrow> Inr v),
         w\<lparr>bstate := s', trace := trace w @ [c]\<rparr>))"

text \<open>\<^verbatim>\<open>d[k]\<close> raises \<^verbatim>\<open>KeyError\<close> for a missing key, and \<^verbatim>\<open>TypeError\<close> when \<^verbatim>\<open>d\<close> is \<^verbatim>\<open>None\<close>
  (the text of the error has \<^verbatim>\<open>NoneType\<close> in single quotes, the character \<open>0x27\<close>).\<close>

definition getitem :: "pydict \<Rightarrow> string \<Rightarrow> ('s, pyval) action" where
  "getitem d k = (case map_of d k of None \<Rightarrow> raise (KeyError k) | Some v \<Rightarrow> ret v)"

definition getitem_opt :: "pydict option \<Rightarrow> string \<Rightarrow> ('s, pyval) action" where
  "getitem_opt d k =
     (case d of None \<Rightarrow> raise (TypeError (CHR 0x27 # ''NoneType'' @ CHR 0x27 # '' object is not subscriptable''))
      | Some d' \<Rightarrow> getitem d' k)"

text \<open>The module parameters, typed by the argument specification.\<close>

datatype state = present | absent

record params =
  p_replication_rule_id :: "string option"
  p_replication_rule_name :: "string option"
  p_new_name :: "string option"
  p_rpo :: "string option"
  p_alert_threshold :: "int option"
  p_remote_system :: "string option"
  p_remote_system_address :: "string option"
  p_state :: state

section \<open>The module's methods\<close>

subsection \<open>Looking up a replication rule\<close>

text \<open>
  The \<^verbatim>\<open>except\<close> clause of \<^verbatim>\<open>get_replication_rule_details\<close>: an HTTP error of the
  SDK with status code \<^verbatim>\<open>"404"\<close> gives \<^verbatim>\<open>None\<close>, any other exception ends the module.
\<close>

fun is_404 :: "exn \<Rightarrow> bool" where
  "is_404 (PowerStoreException c sc t) = (c = HTTP_ERR \<and> sc = Some ''404'')"
| "is_404 e = False"

definition get_details_msg :: "pyval \<Rightarrow> pyval \<Rightarrow> pyval \<Rightarrow> exn \<Rightarrow> message" where
  "get_details_msg rep_rule_name rep_rule_id cluster e =
     Format ''Get details of replication rule name: {0} or ID {1} on array name : {2} failed with error : {3} ''
       [Val rep_rule_name, Val rep_rule_id, Val cluster, Exc e]"

definition get_details_except :: "pyval \<Rightarrow> pyval \<Rightarrow> exn \<Rightarrow> ('s, pydict option) action" where
  "get_details_except rep_rule_name rep_rule_id e w =
     (let msg = get_details_msg rep_rule_name rep_rule_id (cluster_name w) e in
      if is_404 e then ret None w else fail_json msg (Some e) w)"

text \<open>
  \<^verbatim>\<open>get_replication_rule_details(rep_rule_name, rep_rule_id)\<close>: by name when the name is
  truthy (the first match is fetched again by its id), by id otherwise.  A lookup by
  id returns what the SDK returned, also when that is empty.
\<close>

definition get_replication_rule_details ::
    "'s sdk \<Rightarrow> pyval \<Rightarrow> pyval \<Rightarrow> ('s, pydict option) action" where
  "get_replication_rule_details B rep_rule_name rep_rule_id =
     try_except
       (if truthy rep_rule_name then
          seq (sdk_call (Get_replication_rule_by_name rep_rule_name)
                 (protection_get_replication_rule_by_name B rep_rule_name))
            (\<lambda>resp. case resp of
                       [] \<Rightarrow> ret None
                     | r # rs \<Rightarrow>
                         seq (getitem r ''id'')
                           (\<lambda>i. seq (sdk_call (Get_replication_rule_details i)
                                       (protection_get_replication_rule_details B i))
                                  (\<lambda>detail_resp. ret (Some detail_resp))))
        else
          seq (sdk_call (Get_replication_rule_details rep_rule_id)
                 (protection_get_replication_rule_details B rep_rule_id))
            (\<lambda>detail_resp. ret (Some detail_resp)))
       (get_details_except rep_rule_name rep_rule_id)"

subsection \<open>Create, modify, delete\<close>

definition create_replication_rule ::
    "'s sdk \<Rightarrow> pyval \<Rightarrow> pyval \<Rightarrow> pyval \<Rightarrow> pyval \<Rightarrow> ('s, bool \<times> pydict option) action" where
  "create_replication_rule B rep_rule_name rpo remote_system_id alert_threshold =
     try_except
       (if \<not> truthy rpo then
          fail_json (Format ''To create a replication rule rpo is required'' []) None
        else
          seq (sdk_call (Create_replication_rule rep_rule_name rpo remote_system_id alert_threshold)
                 (protection_create_replication_rule B rep_rule_name rpo remote_system_id
                    alert_threshold))
            (\<lambda>resp.
               seq (sdk_call (Get_replication_rule_details (dict_get resp ''id''))
                      (protection_get_replication_rule_details B (dict_get resp ''id'')))
                 (\<lambda>rep_rule_details. ret (True, Some rep_rule_details))))
       (\<lambda>e w. fail_json
          (Format ''create replication rule on PowerStore array name: {0} , global id : {1} failed with error {2}''
             [Val (cluster_name w), Val (cluster_global_id w), Exc e]) (Some e) w)"

definition modify_replication_rule ::
    "'s sdk \<Rightarrow> pyval \<Rightarrow> pyval \<Rightarrow> pyval \<Rightarrow> pyval \<Rightarrow> pyval \<Rightarrow> ('s, bool \<times> pydict option) action" where
  "modify_replication_rule B rep_rule_id new_name rpo remote_system_id alert_threshold =
     try_except
       (seq (sdk_call (Modify_replication_rule rep_rule_id new_name rpo remote_system_id alert_threshold)
               (protection_modify_replication_rule B rep_rule_id new_name rpo remote_system_id
                  alert_threshold))
          (\<lambda>resp. ret (True, Some resp)))
       (\<lambda>e w. fail_json
          (Format ''Modify replication rule id: {0} on PowerStore array name: {1}, global id:{2} failed with error {3}''
             [Val rep_rule_id, Val (cluster_name w), Val (cluster_global_id w), Exc e]) (Some e) w)"

definition delete_replication_rule :: "'s sdk \<Rightarrow> pyval \<Rightarrow> ('s, bool) action" where
  "delete_replication_rule B rep_rule_id =
     try_except
       (seq (sdk_call (Delete_replication_rule rep_rule_id)
               (protection_delete_replication_rule B rep_rule_id))
          (\<lambda>u. ret True))
       (\<lambda>e w. fail_json
          (Format ''Delete replication rule id {0} for PowerStore array name : {1} , global id : {2} failed with error {3} ''
             [Val rep_rule_id, Val (cluster_name w), Val (cluster_global_id w), Exc e]) (Some e) w)"

subsection \<open>Clusters and remote systems\<close>

definition get_clusters :: "'s sdk \<Rightarrow> ('s, pydict list) action" where
  "get_clusters B =
     try_except
       (sdk_call Get_cluster_list (provisioning_get_cluster_list B))
       (\<lambda>e. fail_json (Format ''Failed to get the clusters with error {0}'' [Exc e]) (Some e))"

definition ambiguous_msg :: message where
  "ambiguous_msg = Format
     ''There are more than one instance with the same remote system name. Please enter the remote_system_address to uniquely fetch the remote system instance.'' []"

definition not_found_msg :: "pyval \<Rightarrow> pyval \<Rightarrow> message" where
  "not_found_msg remote_system_name remote_system_address = Format
     ''Remote system with name {0} and address {1} not found. Please enter a valid remote system.''
     [Val remote_system_name, Val remote_system_address]"

text \<open>
  The branch of \<^verbatim>\<open>get_remote_system_details\<close> for a remote system given by name
  (\<^verbatim>\<open>if remote_system_name:\<close>); every path of it returns or fails.
\<close>

definition remote_system_by_name ::
    "'s sdk \<Rightarrow> pyval \<Rightarrow> pyval \<Rightarrow> ('s, pydict option) action" where
  "remote_system_by_name B remote_system_name remote_system_address =
     seq (sdk_call (Get_remote_system_by_name remote_system_name None)
            (protection_get_remote_system_by_name B remote_system_name None))
       (\<lambda>resp. case resp of
            [] \<Rightarrow> fail_json (not_found_msg remote_system_name remote_system_address) None
          | [r] \<Rightarrow> ret (Some r)
          | r # r' # rs \<Rightarrow>
              if \<not> truthy remote_system_address then fail_json ambiguous_msg None
              else
                seq (sdk_call (Get_remote_system_by_name remote_system_name (Some remote_system_address))
                       (protection_get_remote_system_by_name B remote_system_name
                          (Some remote_system_address)))
                  (\<lambda>resp. case resp of
                       [r] \<Rightarrow> ret (Some r)
                     | _ \<Rightarrow> fail_json (not_found_msg remote_system_name remote_system_address) None))"

definition get_remote_system_details ::
    "'s sdk \<Rightarrow> pyval \<Rightarrow> pyval \<Rightarrow> ('s, pydict option) action" where
  "get_remote_system_details B remote_system remote_system_address =
     try_except
       (let remote_system_name =
              (if remote_system \<noteq> PNone \<and> utils_name_or_id B remote_system = ''NAME''
               then remote_system else PNone);
            remote_system_id =
              (if remote_system \<noteq> PNone \<and> utils_name_or_id B remote_system \<noteq> ''NAME''
               then remote_system else PNone)
        in
          if truthy remote_system_name then
            remote_system_by_name B remote_system_name remote_system_address
          else if truthy remote_system_id then
            seq (sdk_call (Get_remote_system_details remote_system_id)
                   (protection_get_remote_system_details B remote_system_id))
              (\<lambda>resp. ret (Some resp))
          else ret None)
       (\<lambda>e. fail_json (Format ''Failed to get the remote system with error {0}'' [Exc e]) (Some e))"

subsection \<open>The reported object\<close>

text \<open>
  \<^verbatim>\<open>show_output\<close> is outside every \<^verbatim>\<open>try\<close>: a missing key or a lookup that returned
  \<^verbatim>\<open>None\<close> raises.
\<close>

definition show_output :: "'s sdk \<Rightarrow> pyval \<Rightarrow> pyval \<Rightarrow> ('s, pydict option) action" where
  "show_output B rep_rule_id remote_system_address =
     seq (get_replication_rule_details B PNone rep_rule_id)
       (\<lambda>rep_rule_details.
          seq (getitem_opt rep_rule_details ''remote_system_id'')
            (\<lambda>rem_sys_id.
               seq (get_remote_system_details B rem_sys_id remote_system_address)
                 (\<lambda>rem_sys. seq (getitem_opt rem_sys ''name'')
                    (\<lambda>rem_sys_name.
                       ret (map_option (\<lambda>d. setitem d ''remote_system_name'' rem_sys_name)
                              rep_rule_details)))))"

subsection \<open>Is a modification required?\<close>

text \<open>
  \<^verbatim>\<open>modify_replication_rule_required\<close>: the loop over the keys of the current object
  returns at the first key that the passed arguments have with a value that is not
  \<^verbatim>\<open>None\<close> and differs from the current one.
\<close>

fun required_loop :: "string list \<Rightarrow> pydict \<Rightarrow> pydict \<Rightarrow> bool" where
  "required_loop [] rep_rule_details passed_args = False"
| "required_loop (key # keys) rep_rule_details passed_args =
     (case (map_of passed_args key, map_of rep_rule_details key) of
        (Some pv, Some dv) \<Rightarrow>
          if pv \<noteq> PNone \<and> \<not> py_eq dv pv then True
          else required_loop keys rep_rule_details passed_args
      | _ \<Rightarrow> required_loop keys rep_rule_details passed_args)"

definition modify_replication_rule_required :: "pydict \<Rightarrow> pydict \<Rightarrow> bool" where
  "modify_replication_rule_required rep_rule_details passed_args =
     required_loop (map fst rep_rule_details) rep_rule_details passed_args"

subsection \<open>One invocation\<close>

text \<open>
  \<^verbatim>\<open>perform_module_operation\<close> is a sequence of blocks, each under its comment in the
  source.  First the cluster: its name and id are kept for the messages.
\<close>

definition set_cluster_name :: "pyval \<Rightarrow> ('s, unit) action" where
  "set_cluster_name n w = (Inr (), w\<lparr>cluster_name := n\<rparr>)"

definition set_cluster_global_id :: "pyval \<Rightarrow> ('s, unit) action" where
  "set_cluster_global_id i w = (Inr (), w\<lparr>cluster_global_id := i\<rparr>)"

definition no_cluster_msg :: message where
  "no_cluster_msg = Format ''Unable to find any active cluster on this array'' []"

definition resolve_cluster :: "'s sdk \<Rightarrow> ('s, unit) action" where
  "resolve_cluster B =
     seq (get_clusters B)
       (\<lambda>clusters. case clusters of
            [] \<Rightarrow> fail_json no_cluster_msg None
          | c # cs \<Rightarrow>
              seq (getitem c ''name'')
                (\<lambda>n. seq (set_cluster_name n)
                   (\<lambda>u. seq (getitem c ''id'') set_cluster_global_id)))"

text \<open>\<^verbatim>\<open># Fetch remote system id if passed\<close>\<close>

definition resolve_remote_system :: "'s sdk \<Rightarrow> params \<Rightarrow> ('s, pyval) action" where
  "resolve_remote_system B P =
     (if truthy (of_str (p_remote_system P)) then
        seq (get_remote_system_details B (of_str (p_remote_system P))
               (of_str (p_remote_system_address P)))
          (\<lambda>remote_system_details.
             if truthy_dict remote_system_details
             then getitem_opt remote_system_details ''id'' else ret PNone)
      else ret PNone)"

text \<open>
  \<^verbatim>\<open># Get the details of the replication rule\<close>: the id and the name default to those
  of the rule found.  The block returns \<^verbatim>\<open>(rep_rule_id, rep_rule_name, rep_rule_details)\<close>.
\<close>

definition fetch_current ::
    "'s sdk \<Rightarrow> params \<Rightarrow> ('s, pyval \<times> pyval \<times> pydict option) action" where
  "fetch_current B P =
     seq (get_replication_rule_details B (of_str (p_replication_rule_name P))
            (of_str (p_replication_rule_id P)))
       (\<lambda>rep_rule_details.
          seq (if truthy_dict rep_rule_details \<and> \<not> truthy (of_str (p_replication_rule_id P))
               then getitem_opt rep_rule_details ''id''
               else ret (of_str (p_replication_rule_id P)))
            (\<lambda>rep_rule_id.
               seq (if truthy_dict rep_rule_details \<and> \<not> truthy (of_str (p_replication_rule_name P))
                    then getitem_opt rep_rule_details ''name''
                    else ret (of_str (p_replication_rule_name P)))
                 (\<lambda>rep_rule_name. ret (rep_rule_id, rep_rule_name, rep_rule_details))))"

text \<open>
  \<^verbatim>\<open># Create a replication rule\<close>.  The test \<^verbatim>\<open>rep_rule_name is None or
  rep_rule_name.strip() == ''\<close> raises for a name that is not a string.
\<close>

definition id_passed_msg :: message where
  "id_passed_msg = Format
     ''To create a replication rule name is required. replication_rule_id is passed.'' []"

definition invalid_name_msg :: message where
  "invalid_name_msg = Format
     ''Invalid rep_rule_name provided. Please enter a valid replication rule name.'' []"

definition remote_system_required_msg :: message where
  "remote_system_required_msg = Format ''To create a replication rule remote_system is required.'' []"

definition new_name_passed_msg :: message where
  "new_name_passed_msg = Format
     ''new_name parameter passed. Renaming a replication rule is invalid during creation.'' []"

definition rpo_required_msg :: message where
  "rpo_required_msg = Format ''To create a replication rule rpo is required'' []"

definition blank_name :: "pyval \<Rightarrow> ('s, bool) action" where
  "blank_name rep_rule_name =
     (case rep_rule_name of
        PNone \<Rightarrow> ret True
      | PStr s \<Rightarrow> ret (strip s = [])
      | _ \<Rightarrow> raise (AttributeError ''strip''))"

definition create_block ::
    "'s sdk \<Rightarrow> params \<Rightarrow> pyval \<Rightarrow> bool \<times> pyval \<times> pyval \<times> pydict option \<Rightarrow>
     ('s, bool \<times> pyval \<times> pydict option) action" where
  "create_block B P remote_system_id v =
     (case v of (changed, rep_rule_id, rep_rule_name, rep_rule_details) \<Rightarrow>
        if \<not> truthy_dict rep_rule_details \<and> p_state P = present then
          if truthy rep_rule_id then fail_json id_passed_msg None
          else
            seq (blank_name rep_rule_name)
              (\<lambda>blank.
                 if blank then fail_json invalid_name_msg None
                 else if \<not> truthy (of_str (p_remote_system P)) then
                   fail_json remote_system_required_msg None
                 else if p_new_name P \<noteq> None then fail_json new_name_passed_msg None
                 else
                   seq (create_replication_rule B rep_rule_name (of_str (p_rpo P)) remote_system_id
                          (of_int_opt (p_alert_threshold P)))
                     (\<lambda>(changed, rep_rule_details).
                        seq (getitem_opt rep_rule_details ''id'')
                          (\<lambda>rep_rule_id. ret (changed, rep_rule_id, rep_rule_details))))
        else ret (changed, rep_rule_id, rep_rule_details))"

text \<open>\<^verbatim>\<open># Delete a replication rule\<close>\<close>

definition delete_block ::
    "'s sdk \<Rightarrow> params \<Rightarrow> pyval \<Rightarrow> bool \<times> pydict option \<Rightarrow> ('s, bool \<times> pydict option) action" where
  "delete_block B P rep_rule_id v =
     (case v of (changed, rep_rule_details) \<Rightarrow>
        if truthy_dict rep_rule_details \<and> p_state P = absent then
          seq (delete_replication_rule B rep_rule_id) (\<lambda>changed. ret (changed, None))
        else ret (changed, rep_rule_details))"

text \<open>\<^verbatim>\<open># Update the details of replication rule\<close>\<close>

definition new_rep_rule_dict :: "pyval \<Rightarrow> params \<Rightarrow> pyval \<Rightarrow> pydict" where
  "new_rep_rule_dict name P remote_system_id =
     [(''name'', name), (''rpo'', of_str (p_rpo P)), (''remote_system_id'', remote_system_id),
      (''alert_threshold'', of_int_opt (p_alert_threshold P))]"

definition update_block ::
    "'s sdk \<Rightarrow> params \<Rightarrow> pyval \<Rightarrow> pyval \<Rightarrow> bool \<times> pydict option \<Rightarrow>
     ('s, bool \<times> pydict option) action" where
  "update_block B P remote_system_id rep_rule_id v =
     (case v of (changed, rep_rule_details) \<Rightarrow>
        case rep_rule_details of
          None \<Rightarrow> ret (changed, rep_rule_details)
        | Some d \<Rightarrow>
            if d \<noteq> [] \<and> p_state P = present then
              seq (case p_new_name P of None \<Rightarrow> getitem d ''name'' | Some n \<Rightarrow> ret (PStr n))
                (\<lambda>name.
                   if modify_replication_rule_required d (new_rep_rule_dict name P remote_system_id)
                   then modify_replication_rule B rep_rule_id (of_str (p_new_name P))
                          (of_str (p_rpo P)) remote_system_id (of_int_opt (p_alert_threshold P))
                   else ret (changed, rep_rule_details))
            else ret (changed, rep_rule_details))"

text \<open>The end of the invocation: the reported object and \<^verbatim>\<open>module.exit_json\<close>.\<close>

definition project_output ::
    "'s sdk \<Rightarrow> params \<Rightarrow> pyval \<Rightarrow> bool \<times> pydict option \<Rightarrow> ('s, result) action" where
  "project_output B P rep_rule_id v =
     (case v of (changed, rep_rule_details) \<Rightarrow>
        seq (if p_state P = present \<and> truthy_dict rep_rule_details
             then show_output B rep_rule_id (of_str (p_remote_system_address P))
             else ret rep_rule_details)
          (\<lambda>rep_rule_details.
             ret \<lparr>r_changed = changed, r_replication_rule_details = rep_rule_details\<rparr>))"

definition reconcile ::
    "'s sdk \<Rightarrow> params \<Rightarrow> pyval \<Rightarrow> pyval \<times> pyval \<times> pydict option \<Rightarrow> ('s, result) action" where
  "reconcile B P remote_system_id v =
     (case v of (rep_rule_id, rep_rule_name, rep_rule_details) \<Rightarrow>
        seq (create_block B P remote_system_id (False, rep_rule_id, rep_rule_name, rep_rule_details))
          (\<lambda>(changed, rep_rule_id, rep_rule_details).
             seq (delete_block B P rep_rule_id (changed, rep_rule_details))
               (\<lambda>v. seq (update_block B P remote_system_id rep_rule_id v)
                       (project_output B P rep_rule_id))))"

definition perform_module_operation :: "'s sdk \<Rightarrow> params \<Rightarrow> ('s, result) action" where
  "perform_module_operation B P =
     seq (resolve_cluster B)
       (\<lambda>u. seq (resolve_remote_system B P)
          (\<lambda>remote_system_id. seq (fetch_current B P) (reconcile B P remote_system_id)))"

section \<open>A simulated array\<close>

text \<open>
  A small in-memory array behind the SDK interface, for running the model on concrete
  inputs: clusters, remote systems and replication rules are lists of dictionaries.
  A lookup by id of an object that does not exist raises the SDK's HTTP error 404;
  a new rule gets an id that no rule has; a modification writes the arguments that
  are not \<^verbatim>\<open>None\<close>.  \<^verbatim>\<open>name_or_id\<close> takes a string that starts with \<^verbatim>\<open>#\<close> for an id.
\<close>

record array =
  a_clusters :: "pydict list"
  a_remote_systems :: "pydict list"
  a_rules :: "pydict list"

definition not_found :: exn where
  "not_found = PowerStoreException HTTP_ERR (Some ''404'') ''Not Found''"

definition has_id :: "pyval \<Rightarrow> pydict \<Rightarrow> bool" where
  "has_id i r \<longleftrightarrow> map_of r ''id'' = Some i"

definition has_name :: "pyval \<Rightarrow> pydict \<Rightarrow> bool" where
  "has_name n r \<longleftrightarrow> map_of r ''name'' = Some n"

definition sim_get_cluster_list :: "array \<Rightarrow> (exn + pydict list) \<times> array" where
  "sim_get_cluster_list s = (Inr (a_clusters s), s)"

definition sim_get_remote_system_by_name ::
    "pyval \<Rightarrow> pyval option \<Rightarrow> array \<Rightarrow> (exn + pydict list) \<times> array" where
  "sim_get_remote_system_by_name n addr s =
     (Inr (filter (\<lambda>r. has_name n r \<and>
                        (case addr of None \<Rightarrow> True
                         | Some a \<Rightarrow> map_of r ''management_address'' = Some a))
             (a_remote_systems s)), s)"

definition sim_get_remote_system_details :: "pyval \<Rightarrow> array \<Rightarrow> (exn + pydict) \<times> array" where
  "sim_get_remote_system_details i s =
     (case find (has_id i) (a_remote_systems s) of
        None \<Rightarrow> (Inl not_found, s) | Some r \<Rightarrow> (Inr r, s))"

definition sim_get_replication_rule_by_name :: "pyval \<Rightarrow> array \<Rightarrow> (exn + pydict list) \<times> array" where
  "sim_get_replication_rule_by_name n s = (Inr (filter (has_name n) (a_rules s)), s)"

definition sim_get_replication_rule_details :: "pyval \<Rightarrow> array \<Rightarrow> (exn + pydict) \<times> array" where
  "sim_get_replication_rule_details i s =
     (case find (has_id i) (a_rules s) of
        None \<Rightarrow> (Inl not_found, s) | Some r \<Rightarrow> (Inr r, s))"

fun id_length :: "pydict \<Rightarrow> nat" where
  "id_length r = (case map_of r ''id'' of Some (PStr x) \<Rightarrow> length x | _ \<Rightarrow> 0)"

definition fresh_id :: "pydict list \<Rightarrow> pyval" where
  "fresh_id rs = PStr (replicate (Suc (foldr max (map id_length rs) 0)) (CHR ''r''))"

fun rpo_minutes :: "pyval \<Rightarrow> pyval" where
  "rpo_minutes (PStr s) =
     (if s = ''Five_Minutes'' then PInt 5 else if s = ''Fifteen_Minutes'' then PInt 15
      else if s = ''Thirty_Minutes'' then PInt 30 else if s = ''One_Hour'' then PInt 60
      else if s = ''Six_Hours'' then PInt 360 else if s = ''Twelve_Hours'' then PInt 720
      else if s = ''One_Day'' then PInt 1440 else PNone)"
| "rpo_minutes v = PNone"

definition new_rule :: "pydict list \<Rightarrow> pyval \<Rightarrow> pyval \<Rightarrow> pyval \<Rightarrow> pyval \<Rightarrow> pydict" where
  "new_rule rs n rpo rsid at =
     [(''id'', fresh_id rs), (''name'', n), (''rpo'', rpo), (''remote_system_id'', rsid),
      (''alert_threshold'', if at = PNone then rpo_minutes rpo else at),
      (''is_replica'', PBool False), (''policies'', PList [])]"

definition sim_create_replication_rule ::
    "pyval \<Rightarrow> pyval \<Rightarrow> pyval \<Rightarrow> pyval \<Rightarrow> array \<Rightarrow> (exn + pydict) \<times> array" where
  "sim_create_replication_rule n rpo rsid at s =
     (Inr [(''id'', fresh_id (a_rules s))],
      s\<lparr>a_rules := a_rules s @ [new_rule (a_rules s) n rpo rsid at]\<rparr>)"

definition upd :: "string \<Rightarrow> pyval \<Rightarrow> pydict \<Rightarrow> pydict" where
  "upd k v r = (if v = PNone then r else setitem r k v)"

fun replace_rule :: "pyval \<Rightarrow> pydict \<Rightarrow> pydict list \<Rightarrow> pydict list" where
  "replace_rule i r' [] = []"
| "replace_rule i r' (r # rs) = (if has_id i r then r' # rs else r # replace_rule i r' rs)"

definition modified :: "pydict \<Rightarrow> pyval \<Rightarrow> pyval \<Rightarrow> pyval \<Rightarrow> pyval \<Rightarrow> pydict" where
  "modified r n rpo rsid at =
     upd ''alert_threshold'' at (upd ''remote_system_id'' rsid (upd ''rpo'' rpo (upd ''name'' n r)))"

definition sim_modify_replication_rule ::
    "pyval \<Rightarrow> pyval \<Rightarrow> pyval \<Rightarrow> pyval \<Rightarrow> pyval \<Rightarrow> array \<Rightarrow> (exn + pydict) \<times> array" where
  "sim_modify_replication_rule i n rpo rsid at s =
     (case find (has_id i) (a_rules s) of
        None \<Rightarrow> (Inl not_found, s)
      | Some r \<Rightarrow>
          (Inr (modified r n rpo rsid at),
           s\<lparr>a_rules := replace_rule i (modified r n rpo rsid at) (a_rules s)\<rparr>))"

definition sim_delete_replication_rule :: "pyval \<Rightarrow> array \<Rightarrow> (exn + unit) \<times> array" where
  "sim_delete_replication_rule i s =
     (case find (has_id i) (a_rules s) of
        None \<Rightarrow> (Inl not_found, s)
      | Some r \<Rightarrow> (Inr (), s\<lparr>a_rules := filter (\<lambda>r. \<not> has_id i r) (a_rules s)\<rparr>))"

fun sim_name_or_id :: "pyval \<Rightarrow> string" where
  "sim_name_or_id (PStr (c # cs)) = (if c = CHR ''#'' then ''ID'' else ''NAME'')"
| "sim_name_or_id v = ''NAME''"

definition sim :: "array sdk" where
  "sim = \<lparr>provisioning_get_cluster_list = sim_get_cluster_list,
          protection_get_remote_system_by_name = sim_get_remote_system_by_name,
          protection_get_remote_system_details = sim_get_remote_system_details,
          protection_get_replication_rule_by_name = sim_get_replication_rule_by_name,
          protection_get_replication_rule_details = sim_get_replication_rule_details,
          protection_create_replication_rule = sim_create_replication_rule,
          protection_modify_replication_rule = sim_modify_replication_rule,
          protection_delete_replication_rule = sim_delete_replication_rule,
          utils_name_or_id = sim_name_or_id\<rparr>"

text \<open>An array with one cluster, two remote systems of the same name and one rule.\<close>

definition array0 :: array where
  "array0 =
     \<lparr>a_clusters = [[(''id'', PStr ''0''), (''name'', PStr ''WN-D8977'')]],
      a_remote_systems =
        [[(''id'', PStr ''#rs1''), (''name'', PStr ''RS1''), (''management_address'', PStr ''10.0.0.1'')],
         [(''id'', PStr ''#rs2''), (''name'', PStr ''RS1''), (''management_address'', PStr ''10.0.0.2'')],
         [(''id'', PStr ''#rs3''), (''name'', PStr ''RS3''), (''management_address'', PStr ''10.0.0.3'')]],
      a_rules =
        [[(''id'', PStr ''#rule1''), (''name'', PStr ''A''), (''rpo'', PStr ''One_Hour''),
          (''remote_system_id'', PStr ''#rs3''), (''alert_threshold'', PInt 60)]]\<rparr>"

definition no_params :: params where
  "no_params =
     \<lparr>p_replication_rule_id = None, p_replication_rule_name = None, p_new_name = None,
      p_rpo = None, p_alert_threshold = None, p_remote_system = None,
      p_remote_system_address = None, p_state = present\<rparr>"

text \<open>The world after SDK calls \<open>t\<close> that left the array in state \<open>s\<close>.\<close>

definition logged :: "'s world \<Rightarrow> 's \<Rightarrow> call list \<Rightarrow> 's world" where
  "logged w s t = w\<lparr>bstate := s, trace := trace w @ t\<rparr>"

text \<open>The simulated array with a rule endpoint that answers every request with an error 500.\<close>

definition server_error :: exn where
  "server_error = PowerStoreException HTTP_ERR (Some ''500'') ''Internal Server Error''"

definition broken :: "array sdk" where
  "broken = sim\<lparr>protection_get_replication_rule_details := (\<lambda>i s. (Inl server_error, s))\<rparr>"

section \<open>Kinds of calls, kinds of messages, and the order of calls\<close>

fun is_remote_lookup :: "call \<Rightarrow> bool" where
  "is_remote_lookup (Get_remote_system_by_name n a) = True"
| "is_remote_lookup (Get_remote_system_details i) = True"
| "is_remote_lookup c = False"

text \<open>The SDK calls of one rule lookup: by name, by name and then by id, or by id.\<close>

fun is_rule_lookup :: "call list \<Rightarrow> bool" where
  "is_rule_lookup [Get_replication_rule_by_name n] = True"
| "is_rule_lookup [Get_replication_rule_by_name n, Get_replication_rule_details i] = True"
| "is_rule_lookup [Get_replication_rule_details i] = True"
| "is_rule_lookup t = False"

text \<open>
  The messages of the input checks of the create path: an id instead of a name, no
  name or a blank one, no remote system, a new name, no rpo.
\<close>

definition is_validation_msg :: "message \<Rightarrow> bool" where
  "is_validation_msg m \<longleftrightarrow>
     m = id_passed_msg \<or> m = invalid_name_msg \<or> m = remote_system_required_msg \<or>
     m = new_name_passed_msg \<or> m = rpo_required_msg"

text \<open>
  The order of the SDK calls of an invocation, as an automaton over the calls.  The
  cluster listing comes first; then the lookups of the remote system; then the rule
  lookup (by name, by id, or both); then the mutating calls: one create (followed by
  fetches by id, and possibly by one modify), or one modify, or one delete; a fetch
  by id does not change the phase; the lookup of the remote system for the reported
  name ends the sequence.
\<close>

datatype phase =
  Started | Resolving | Looked_up | Created | Modified | Created_modified | Deleted | Reporting

fun phase_step :: "phase \<Rightarrow> call \<Rightarrow> phase option" where
  "phase_step Started Get_cluster_list = Some Resolving"
| "phase_step Resolving (Get_remote_system_by_name n a) = Some Resolving"
| "phase_step Resolving (Get_remote_system_details i) = Some Resolving"
| "phase_step Resolving (Get_replication_rule_by_name n) = Some Looked_up"
| "phase_step Resolving (Get_replication_rule_details i) = Some Looked_up"
| "phase_step Looked_up (Get_replication_rule_details i) = Some Looked_up"
| "phase_step Looked_up (Create_replication_rule n r s a) = Some Created"
| "phase_step Looked_up (Modify_replication_rule i n r s a) = Some Modified"
| "phase_step Looked_up (Delete_replication_rule i) = Some Deleted"
| "phase_step Looked_up (Get_remote_system_by_name n a) = Some Reporting"
| "phase_step Looked_up (Get_remote_system_details i) = Some Reporting"
| "phase_step Created (Get_replication_rule_details i) = Some Created"
| "phase_step Created (Modify_replication_rule i n r s a) = Some Created_modified"
| "phase_step Created (Get_remote_system_by_name n a) = Some Reporting"
| "phase_step Created (Get_remote_system_details i) = Some Reporting"
| "phase_step Modified (Get_replication_rule_details i) = Some Modified"
| "phase_step Modified (Get_remote_system_by_name n a) = Some Reporting"
| "phase_step Modified (Get_remote_system_details i) = Some Reporting"
| "phase_step Created_modified (Get_replication_rule_details i) = Some Created_modified"
| "phase_step Created_modified (Get_remote_system_by_name n a) = Some Reporting"
| "phase_step Created_modified (Get_remote_system_details i) = Some Reporting"
| "phase_step Reporting (Get_remote_system_by_name n a) = Some Reporting"
| "phase_step Reporting (Get_remote_system_details i) = Some Reporting"
| "phase_step p c = None"

fun run_phases :: "phase \<Rightarrow> call list \<Rightarrow> phase option" where
  "run_phases p [] = Some p"
| "run_phases p (c # cs) = (case phase_step p c of None \<Rightarrow> None | Some q \<Rightarrow> run_phases q cs)"



text \<open>The SDK calls made between two worlds of one invocation.\<close>

definition new_calls :: "'s world \<Rightarrow> 's world \<Rightarrow> call list" where
  "new_calls w w' = drop (length (trace w)) (trace w')"

definition extends :: "'s world \<Rightarrow> 's world \<Rightarrow> bool" where
  "extends w w' \<longleftrightarrow> trace w' = trace w @ new_calls w w'"


fun is_report :: "call list \<Rightarrow> bool" where
  "is_report (Get_replication_rule_details i # t) = list_all is_remote_lookup t"
| "is_report t = False"




definition P_blank :: params where
  "P_blank = no_params\<lparr>p_replication_rule_name := Some ''  '', p_rpo := Some ''Five_Minutes'',
     p_remote_system := Some ''RS3''\<rparr>"

definition P_rename :: params where
  "P_rename = no_params\<lparr>p_replication_rule_name := Some ''A'', p_new_name := Some ''B''\<rparr>"

definition P_get :: params where
  "P_get = no_params\<lparr>p_replication_rule_name := Some ''A''\<rparr>"

definition P_absent :: params where
  "P_absent = no_params\<lparr>p_replication_rule_name := Some ''N'', p_state := absent\<rparr>"

definition P_create :: params where
  "P_create = no_params\<lparr>p_replication_rule_name := Some ''N'', p_rpo := Some ''Five_Minutes'',
     p_remote_system := Some ''RS3'', p_alert_threshold := Some 15\<rparr>"

text \<open>
  The parameters with which the create block reaches the SDK's create call: no id, a
  name that is not blank, a remote system, no new name, an rpo.
\<close>

definition create_preconditions :: "params \<Rightarrow> bool" where
  "create_preconditions P \<longleftrightarrow>
     \<not> truthy (of_str (p_replication_rule_id P)) \<and>
     (case p_replication_rule_name P of None \<Rightarrow> False | Some n \<Rightarrow> strip n \<noteq> []) \<and>
     truthy (of_str (p_remote_system P)) \<and>
     p_new_name P = None \<and>
     truthy (of_str (p_rpo P))"

definition P_unknown_remote :: params where
  "P_unknown_remote = no_params\<lparr>p_replication_rule_name := Some ''N'', p_rpo := Some ''Five_Minutes'',
     p_remote_system := Some ''RS9''\<rparr>"

text \<open>The world of an invocation on the simulated array after the cluster has been listed.\<close>

definition world1 :: "array world" where
  "world1 = logged ((init_world array0)\<lparr>cluster_name := PStr ''WN-D8977'',
               cluster_global_id := PStr ''0''\<rparr>) array0 [Get_cluster_list]"

text \<open>The rule of \<open>array0\<close>, and a request that changes its rpo.\<close>

definition rule1 :: pydict where
  "rule1 = [(''id'', PStr ''#rule1''), (''name'', PStr ''A''), (''rpo'', PStr ''One_Hour''),
            (''remote_system_id'', PStr ''#rs3''), (''alert_threshold'', PInt 60)]"

definition P_modify :: params where
  "P_modify = no_params\<lparr>p_replication_rule_name := Some ''A'', p_rpo := Some ''Five_Minutes''\<rparr>"

section \<open>Runs that see the same array\<close>

text \<open>
  Two outcomes agree when they are the same value, the same exception, or both a
  \<^verbatim>\<open>fail_json\<close> (whose message may name the cluster).  An action respects a relation
  \<open>R\<close> between arrays when, started in worlds with related arrays, it ends with
  outcomes that agree and in related arrays; an SDK method is compatible with \<open>R\<close>
  when it answers the same on related arrays and leaves them related.
\<close>

definition agrees :: "(stop + 'a) \<Rightarrow> (stop + 'a) \<Rightarrow> bool" where
  "agrees r r' \<longleftrightarrow>
     (case (r, r') of
        (Inr x, Inr y) \<Rightarrow> x = y
      | (Inl (Raised e), Inl (Raised e')) \<Rightarrow> e = e'
      | (Inl (Fail_json m c), Inl (Fail_json m' c')) \<Rightarrow> True
      | _ \<Rightarrow> False)"

definition frame_rel :: "('s \<Rightarrow> 's \<Rightarrow> bool) \<Rightarrow> ('s, 'a) action \<Rightarrow> bool" where
  "frame_rel R m \<longleftrightarrow>
     (\<forall>w v. R (bstate w) (bstate v) \<longrightarrow>
        agrees (fst (m w)) (fst (m v)) \<and> R (bstate (snd (m w))) (bstate (snd (m v))))"

definition compat :: "('s \<Rightarrow> 's \<Rightarrow> bool) \<Rightarrow> ('s \<Rightarrow> (exn + 'a) \<times> 's) \<Rightarrow> bool" where
  "compat R f \<longleftrightarrow> (\<forall>s s'. R s s' \<longrightarrow> fst (f s) = fst (f s') \<and> R (snd (f s)) (snd (f s')))"

definition remote_compat :: "('s \<Rightarrow> 's \<Rightarrow> bool) \<Rightarrow> 's sdk \<Rightarrow> bool" where
  "remote_compat R B \<longleftrightarrow>
     (\<forall>n a. compat R (protection_get_remote_system_by_name B n a)) \<and>
     (\<forall>i. compat R (protection_get_remote_system_details B i))"

definition rule_compat :: "('s \<Rightarrow> 's \<Rightarrow> bool) \<Rightarrow> 's sdk \<Rightarrow> bool" where
  "rule_compat R B \<longleftrightarrow>
     (\<forall>n. compat R (protection_get_replication_rule_by_name B n)) \<and>
     (\<forall>i. compat R (protection_get_replication_rule_details B i))"

text \<open>
  The parameters that \<^verbatim>\<open>AnsibleModule\<close> accepts: \<^verbatim>\<open>replication_rule_id\<close> and
  \<^verbatim>\<open>replication_rule_name\<close> are mutually exclusive, and one of them is required.
\<close>

definition valid_params :: "params \<Rightarrow> bool" where
  "valid_params P \<longleftrightarrow>
     (p_replication_rule_id P = None \<or> p_replication_rule_name P = None) \<and>
     (p_replication_rule_id P \<noteq> None \<or> p_replication_rule_name P \<noteq> None)"

definition P_rename_again :: params where
  "P_rename_again = no_params\<lparr>p_replication_rule_name := Some ''A'', p_new_name := Some ''B'',
     p_rpo := Some ''One_Hour'', p_remote_system := Some ''RS3''\<rparr>"

text \<open>
  What the rule lookup of the module finds on the simulated array: the first rule
  with the id \<open>rid\<close> is \<open>r\<close>; for a lookup by name, no id was given and \<open>rid\<close> is the id
  of the first rule of that name; for a lookup by id, \<open>rid\<close> is the id given and
  \<open>rname\<close> the name of \<open>r\<close>.
\<close>

definition found :: "params \<Rightarrow> pydict list \<Rightarrow> pyval \<Rightarrow> pyval \<Rightarrow> pydict \<Rightarrow> bool" where
  "found P rules rid rname r \<longleftrightarrow>
     find (has_id rid) rules = Some r \<and>
     (if truthy (of_str (p_replication_rule_name P))
      then p_replication_rule_id P = None \<and> rname = of_str (p_replication_rule_name P) \<and>
           (case filter (has_name (of_str (p_replication_rule_name P))) rules of
              [] \<Rightarrow> False | r0 # rest \<Rightarrow> has_id rid r0)
      else rid = of_str (p_replication_rule_id P) \<and> has_name rname r)"

text \<open>The name that the update block compares: the new name, or else the current one.\<close>

definition desired_name :: "params \<Rightarrow> pydict \<Rightarrow> pyval option" where
  "desired_name P d = (case p_new_name P of None \<Rightarrow> map_of d ''name'' | Some n \<Rightarrow> Some (PStr n))"

text \<open>
  The simulated array with a lookup of a remote system by id that answers an unknown
  id with an empty object instead of an error, and a request that names the remote
  system by an id that no remote system of \<open>array0\<close> has.
\<close>

definition lenient :: "array sdk" where
  "lenient = sim\<lparr>protection_get_remote_system_details :=
     (\<lambda>i s. case find (has_id i) (a_remote_systems s) of
               None \<Rightarrow> (Inr [], s) | Some r \<Rightarrow> (Inr r, s))\<rparr>"

definition P_unknown_id :: params where
  "P_unknown_id = no_params\<lparr>p_replication_rule_name := Some ''N'', p_rpo := Some ''Five_Minutes'',
     p_remote_system := Some ''#rs9''\<rparr>"

text \<open>
  The simulated array with a modify call that makes the change and answers with an
  empty object.
\<close>

definition silent :: "array sdk" where
  "silent = sim\<lparr>protection_modify_replication_rule :=
     (\<lambda>i n rpo rsid at s.
        case sim_modify_replication_rule i n rpo rsid at s of
          (Inr r, s') \<Rightarrow> (Inr [], s') | v \<Rightarrow> v)\<rparr>"

section \<open>Sequencing\<close>

lemma seq_Inr: "m w = (Inr x, w1) \<Longrightarrow> seq m f w = f x w1"
  by (simp add: seq_def)

lemma seq_Inl: "m w = (Inl e, w1) \<Longrightarrow> seq m f w = (Inl e, w1)"
  by (simp add: seq_def)

section \<open>An array without a cluster\<close>




section \<open>SDK calls and the trace\<close>

lemma sdk_call_Inr:
  "f (bstate w) = (Inr v, s') \<Longrightarrow> sdk_call c f w = (Inr v, logged w s' [c])"
  by (simp add: sdk_call_def logged_def)

lemma sdk_call_Inl:
  "f (bstate w) = (Inl e, s') \<Longrightarrow> sdk_call c f w = (Inl (Raised e), logged w s' [c])"
  by (simp add: sdk_call_def logged_def)

lemma logged_logged [simp]: "logged (logged w s t) s' t' = logged w s' (t @ t')"
  by (simp add: logged_def)

lemma logged_sel [simp]:
  "bstate (logged w s t) = s" "trace (logged w s t) = trace w @ t"
  "cluster_name (logged w s t) = cluster_name w"
  "cluster_global_id (logged w s t) = cluster_global_id w"
  by (simp_all add: logged_def)

section \<open>Errors of the rule lookup\<close>

text \<open>
  C4.  When an SDK call of the rule lookup raises \<open>e\<close> (the lookup by id, the lookup by
  name, or the fetch by id that follows a match by name): for an HTTP error with
  status code 404 the lookup returns \<^verbatim>\<open>None\<close> and nothing fails; for any other
  exception the module fails with the message \<^verbatim>\<open>Get details of replication rule name:
  {0} or ID {1} on array name : {2} failed with error : {3}\<close>, formatted with the rule's
  name, the rule's id, the cluster name and the error, and with the failure codes of
  the error.
\<close>

theorem not_found_translation:
  "(\<not> truthy rep_rule_name \<and>
    protection_get_replication_rule_details B rep_rule_id (bstate w) = (Inl e, s1)
    \<longrightarrow> get_replication_rule_details B rep_rule_name rep_rule_id w =
          ((if is_404 e then Inr None
            else Inl (Fail_json
                   (Format ''Get details of replication rule name: {0} or ID {1} on array name : {2} failed with error : {3} ''
                    [Val rep_rule_name, Val rep_rule_id, Val (cluster_name w), Exc e])
                   (Some e))),
           logged w s1 [Get_replication_rule_details rep_rule_id])) \<and>
   (truthy rep_rule_name \<and>
    protection_get_replication_rule_by_name B rep_rule_name (bstate w) = (Inl e, s1)
    \<longrightarrow> get_replication_rule_details B rep_rule_name rep_rule_id w =
          ((if is_404 e then Inr None
            else Inl (Fail_json
                   (Format ''Get details of replication rule name: {0} or ID {1} on array name : {2} failed with error : {3} ''
                    [Val rep_rule_name, Val rep_rule_id, Val (cluster_name w), Exc e])
                   (Some e))),
           logged w s1 [Get_replication_rule_by_name rep_rule_name])) \<and>
   (truthy rep_rule_name \<and>
    protection_get_replication_rule_by_name B rep_rule_name (bstate w) = (Inr (r # rs), s1) \<and>
    map_of r ''id'' = Some i \<and>
    protection_get_replication_rule_details B i s1 = (Inl e, s2)
    \<longrightarrow> get_replication_rule_details B rep_rule_name rep_rule_id w =
          ((if is_404 e then Inr None
            else Inl (Fail_json
                   (Format ''Get details of replication rule name: {0} or ID {1} on array name : {2} failed with error : {3} ''
                    [Val rep_rule_name, Val rep_rule_id, Val (cluster_name w), Exc e])
                   (Some e))),
           logged w s2 [Get_replication_rule_by_name rep_rule_name, Get_replication_rule_details i]))"
  by (simp add: get_replication_rule_details_def try_except_def seq_def sdk_call_def logged_def
      get_details_except_def get_details_msg_def ret_def fail_json_def getitem_def)

theorem not_found_translation_witness:
  "get_replication_rule_details sim PNone (PStr ''zz'') (init_world array0) =
     (Inr None, logged (init_world array0) array0 [Get_replication_rule_details (PStr ''zz'')]) \<and>
   get_replication_rule_details broken (PStr ''A'') PNone (init_world array0) =
     (Inl (Fail_json
            (Format ''Get details of replication rule name: {0} or ID {1} on array name : {2} failed with error : {3} ''
               [Val (PStr ''A''), Val PNone, Val (PStr '' ''),
                Exc (PowerStoreException HTTP_ERR (Some ''500'') ''Internal Server Error'')])
            (Some (PowerStoreException HTTP_ERR (Some ''500'') ''Internal Server Error''))),
      logged (init_world array0) array0
        [Get_replication_rule_by_name (PStr ''A''), Get_replication_rule_details (PStr ''#rule1'')])"
proof -
  have a: "get_replication_rule_details sim PNone (PStr ''zz'') (init_world array0) =
     (Inr None, logged (init_world array0) array0 [Get_replication_rule_details (PStr ''zz'')])"
    using not_found_translation [where B = sim and rep_rule_name = PNone
        and rep_rule_id = "PStr ''zz''" and w = "init_world array0" and e = not_found
        and ?s1.0 = array0]
    by (simp add: sim_def sim_get_replication_rule_details_def array0_def has_id_def
        init_world_def not_found_def)
  have b: "get_replication_rule_details broken (PStr ''A'') PNone (init_world array0) =
     (Inl (Fail_json
            (Format ''Get details of replication rule name: {0} or ID {1} on array name : {2} failed with error : {3} ''
               [Val (PStr ''A''), Val PNone, Val (PStr '' ''),
                Exc (PowerStoreException HTTP_ERR (Some ''500'') ''Internal Server Error'')])
            (Some (PowerStoreException HTTP_ERR (Some ''500'') ''Internal Server Error''))),
      logged (init_world array0) array0
        [Get_replication_rule_by_name (PStr ''A''), Get_replication_rule_details (PStr ''#rule1'')])"
    using not_found_translation [where B = broken and rep_rule_name = "PStr ''A''"
        and rep_rule_id = PNone and w = "init_world array0" and e = server_error
        and ?s1.0 = array0 and ?s2.0 = array0 and i = "PStr ''#rule1''"
        and r = "hd (a_rules array0)" and rs = "[]"]
    by (simp add: broken_def sim_def sim_get_replication_rule_by_name_def array0_def has_name_def
        init_world_def server_error_def)
  from a b show ?thesis by simp
qed

section \<open>Resolving a remote system by name\<close>

text \<open>
  C8.  A remote system given by name (a truthy value that \<^verbatim>\<open>name_or_id\<close> takes for a
  name), when the SDK's lookup by name returns \<open>resp\<close>: no match fails with the message
  asking for a valid remote system; exactly one match is the result; more than one
  match without an address (none, or an empty one) fails with the message that says
  that more than one instance has the name and asks for \<^verbatim>\<open>remote_system_address\<close>; more
  than one match with an address repeats the lookup with the address, and its result
  is the single match, or else the failure \<^verbatim>\<open>Remote system with name {0} and address
  {1} not found\<close>, formatted with the name and the address.
\<close>

theorem remote_system_resolution_by_name:
  assumes "truthy remote_system" and "utils_name_or_id B remote_system = ''NAME''"
    and "protection_get_remote_system_by_name B remote_system None (bstate w) = (Inr resp, s1)"
  shows
   "(resp = [] \<longrightarrow>
       get_remote_system_details B remote_system address w =
         (Inl (Fail_json
                 (Format ''Remote system with name {0} and address {1} not found. Please enter a valid remote system.''
                    [Val remote_system, Val address]) None),
          logged w s1 [Get_remote_system_by_name remote_system None])) \<and>
    (\<forall>r. resp = [r] \<longrightarrow>
       get_remote_system_details B remote_system address w =
         (Inr (Some r), logged w s1 [Get_remote_system_by_name remote_system None])) \<and>
    (1 < length resp \<and> \<not> truthy address \<longrightarrow>
       get_remote_system_details B remote_system address w =
         (Inl (Fail_json
            (Format ''There are more than one instance with the same remote system name. Please enter the remote_system_address to uniquely fetch the remote system instance.'' [])
            None),
          logged w s1 [Get_remote_system_by_name remote_system None])) \<and>
    (1 < length resp \<and> truthy address \<longrightarrow>
       (\<forall>resp2 s2.
          protection_get_remote_system_by_name B remote_system (Some address) s1 = (Inr resp2, s2)
          \<longrightarrow> get_remote_system_details B remote_system address w =
                ((case resp2 of
                    [r] \<Rightarrow> Inr (Some r)
                  | _ \<Rightarrow> Inl (Fail_json
                           (Format ''Remote system with name {0} and address {1} not found. Please enter a valid remote system.''
                              [Val remote_system, Val address]) None)),
                 logged w s2 [Get_remote_system_by_name remote_system None,
                              Get_remote_system_by_name remote_system (Some address)])))"
proof -
  have ne: "remote_system \<noteq> PNone" using assms(1) by auto
  show ?thesis
    using assms ne
    by (auto simp add: get_remote_system_details_def remote_system_by_name_def try_except_def
        seq_def sdk_call_def logged_def ret_def fail_json_def ambiguous_msg_def not_found_msg_def
        split: list.splits)
qed

theorem remote_system_resolution_by_name_witness:
  "get_remote_system_details sim (PStr ''RS1'') PNone (init_world array0) =
     (Inl (Fail_json
            (Format ''There are more than one instance with the same remote system name. Please enter the remote_system_address to uniquely fetch the remote system instance.'' [])
            None),
      logged (init_world array0) array0 [Get_remote_system_by_name (PStr ''RS1'') None]) \<and>
   get_remote_system_details sim (PStr ''RS1'') (PStr ''10.0.0.2'') (init_world array0) =
     (Inr (Some [(''id'', PStr ''#rs2''), (''name'', PStr ''RS1''),
                 (''management_address'', PStr ''10.0.0.2'')]),
      logged (init_world array0) array0
        [Get_remote_system_by_name (PStr ''RS1'') None,
         Get_remote_system_by_name (PStr ''RS1'') (Some (PStr ''10.0.0.2''))]) \<and>
   get_remote_system_details sim (PStr ''RS3'') PNone (init_world array0) =
     (Inr (Some [(''id'', PStr ''#rs3''), (''name'', PStr ''RS3''),
                 (''management_address'', PStr ''10.0.0.3'')]),
      logged (init_world array0) array0 [Get_remote_system_by_name (PStr ''RS3'') None]) \<and>
   get_remote_system_details sim (PStr ''RS9'') PNone (init_world array0) =
     (Inl (Fail_json
            (Format ''Remote system with name {0} and address {1} not found. Please enter a valid remote system.''
               [Val (PStr ''RS9''), Val PNone]) None),
      logged (init_world array0) array0 [Get_remote_system_by_name (PStr ''RS9'') None])"
proof -
  have two: "protection_get_remote_system_by_name sim (PStr ''RS1'') None (bstate (init_world array0)) =
      (Inr (take 2 (a_remote_systems array0)), array0)"
    by (simp add: sim_def sim_get_remote_system_by_name_def array0_def has_name_def init_world_def)
  have one: "protection_get_remote_system_by_name sim (PStr ''RS3'') None (bstate (init_world array0)) =
      (Inr (drop 2 (a_remote_systems array0)), array0)"
    by (simp add: sim_def sim_get_remote_system_by_name_def array0_def has_name_def init_world_def)
  have none: "protection_get_remote_system_by_name sim (PStr ''RS9'') None (bstate (init_world array0)) =
      (Inr [], array0)"
    by (simp add: sim_def sim_get_remote_system_by_name_def array0_def has_name_def init_world_def)
  have scoped: "protection_get_remote_system_by_name sim (PStr ''RS1'') (Some (PStr ''10.0.0.2'')) array0 =
      (Inr [[(''id'', PStr ''#rs2''), (''name'', PStr ''RS1''),
             (''management_address'', PStr ''10.0.0.2'')]], array0)"
    by (simp add: sim_def sim_get_remote_system_by_name_def array0_def has_name_def)
  have nm: "\<And>x. utils_name_or_id sim (PStr (CHR ''R'' # x)) = ''NAME''"
    by (simp add: sim_def)
  show ?thesis
    using remote_system_resolution_by_name [OF _ nm two, of PNone]
      remote_system_resolution_by_name [OF _ nm two, of "PStr ''10.0.0.2''"] scoped
      remote_system_resolution_by_name [OF _ nm one, of PNone]
      remote_system_resolution_by_name [OF _ nm none, of PNone]
    by (simp add: array0_def)
qed

section \<open>Running the actions\<close>

lemma ret_eq [simp]: "ret x w = (r, w') \<longleftrightarrow> r = Inr x \<and> w' = w"
  by (auto simp add: ret_def)

lemma raise_eq [simp]: "raise e w = (r, w') \<longleftrightarrow> r = Inl (Raised e) \<and> w' = w"
  by (auto simp add: raise_def)

lemma fail_json_eq [simp]: "fail_json m c w = (r, w') \<longleftrightarrow> r = Inl (Fail_json m c) \<and> w' = w"
  by (auto simp add: fail_json_def)

lemma seqE:
  assumes "seq m f w = (r, w')"
  obtains (stopped) e where "m w = (Inl e, w')" and "r = Inl e"
  | (continued) x w1 where "m w = (Inr x, w1)" and "f x w1 = (r, w')"
  using assms by (cases "m w") (auto simp add: seq_def split: sum.splits)

lemma try_exceptE:
  assumes "try_except m h w = (r, w')"
  obtains (caught) e w1 where "m w = (Inl (Raised e), w1)" and "h e w1 = (r, w')"
  | (passed) "m w = (r, w')" and "\<And>e. r \<noteq> Inl (Raised e)"
  using assms by (cases "m w") (auto simp add: try_except_def split: sum.splits stop.splits)

lemma sdk_callE:
  assumes "sdk_call c f w = (r, w')"
  obtains (raised) e s' where "f (bstate w) = (Inl e, s')" and "r = Inl (Raised e)"
      and "w' = logged w s' [c]"
  | (returned) v s' where "f (bstate w) = (Inr v, s')" and "r = Inr v"
      and "w' = logged w s' [c]"
  using assms by (cases "f (bstate w)") (auto simp add: sdk_call_def logged_def split: sum.splits)

lemma getitemE:
  assumes "getitem d k w = (r, w')"
  obtains (missing) "map_of d k = None" and "r = Inl (Raised (KeyError k))" and "w' = w"
  | (found) v where "map_of d k = Some v" and "r = Inr v" and "w' = w"
  using assms by (auto simp add: getitem_def split: option.splits)

lemma getitem_optE:
  assumes "getitem_opt d k w = (r, w')"
  obtains (none) e where "r = Inl (Raised e)" and "w' = w"
  | (found) d' v where "d = Some d'" and "map_of d' k = Some v" and "r = Inr v" and "w' = w"
  using assms by (auto simp add: getitem_opt_def split: option.splits elim!: getitemE)

lemma extends_refl [simp]: "extends w w"
  by (simp add: extends_def new_calls_def)

lemma new_calls_refl [simp]: "new_calls w w = []"
  by (simp add: new_calls_def)

lemma extends_iff: "extends w w' \<longleftrightarrow> (\<exists>t. trace w' = trace w @ t)"
  by (auto simp add: extends_def new_calls_def)

lemma new_calls_eq: "trace w' = trace w @ t \<Longrightarrow> new_calls w w' = t"
  by (simp add: new_calls_def)

lemma extends_trans:
  assumes "extends w w1" and "extends w1 w2"
  shows "extends w w2 \<and> new_calls w w2 = new_calls w w1 @ new_calls w1 w2"
proof -
  from assms obtain t1 t2 where t: "trace w1 = trace w @ t1" "trace w2 = trace w1 @ t2"
    by (auto simp add: extends_iff)
  then have "trace w2 = trace w @ (t1 @ t2)" by simp
  then have "extends w w2" and "new_calls w w2 = t1 @ t2"
    by (auto simp add: extends_iff new_calls_eq simp del: append_assoc)
  moreover from t have "new_calls w w1 = t1" and "new_calls w1 w2 = t2"
    by (simp_all add: new_calls_eq)
  ultimately show ?thesis by simp
qed

lemma extends_logged_self [simp]: "extends w (logged w s t)"
  by (simp add: extends_def new_calls_def)

lemma new_calls_logged_self [simp]: "new_calls w (logged w s t) = t"
  by (simp add: new_calls_def)

lemma extends_loggedI: "extends w w1 \<Longrightarrow> extends w (logged w1 s t)"
  using extends_trans [of w w1 "logged w1 s t"] by simp

lemma new_calls_logged: "extends w w1 \<Longrightarrow> new_calls w (logged w1 s t) = new_calls w w1 @ t"
  using extends_trans [of w w1 "logged w1 s t"] by simp

lemma extends_cluster_name [simp]:
  "extends w (w1\<lparr>cluster_name := v\<rparr>) = extends w w1"
  "extends w (w1\<lparr>cluster_global_id := v\<rparr>) = extends w w1"
  "new_calls w (w1\<lparr>cluster_name := v\<rparr>) = new_calls w w1"
  "new_calls w (w1\<lparr>cluster_global_id := v\<rparr>) = new_calls w w1"
  by (simp_all add: extends_def new_calls_def)

text \<open>What each method adds to the trace, and which failures it can end with.\<close>

lemmas msg_defs = is_validation_msg_def id_passed_msg_def invalid_name_msg_def
  remote_system_required_msg_def new_name_passed_msg_def rpo_required_msg_def
  no_cluster_msg_def ambiguous_msg_def not_found_msg_def get_details_msg_def

lemma get_clusters_effect:
  assumes "get_clusters B w = (r, w')"
  shows "extends w w' \<and> new_calls w w' = [Get_cluster_list] \<and>
         (\<forall>m c. r = Inl (Fail_json m c) \<longrightarrow> \<not> is_validation_msg m)"
  using assms
  by (auto simp add: get_clusters_def msg_defs elim!: try_exceptE sdk_callE)

lemma logged_nil [simp]: "logged w (bstate w) [] = w"
  by (simp add: logged_def)

lemma resolve_cluster_effect:
  assumes "resolve_cluster B w = (r, w')"
  shows "extends w w' \<and> new_calls w w' = [Get_cluster_list] \<and>
         (\<forall>m c. r = Inl (Fail_json m c) \<longrightarrow> \<not> is_validation_msg m)"
  using assms
  by (auto simp add: resolve_cluster_def set_cluster_name_def set_cluster_global_id_def msg_defs
      dest!: get_clusters_effect elim!: seqE getitemE split: list.splits)

lemma remote_system_by_name_effect:
  assumes "remote_system_by_name B n a w = (r, w')"
  shows "extends w w' \<and> list_all is_remote_lookup (new_calls w w') \<and>
         (\<forall>m c. r = Inl (Fail_json m c) \<longrightarrow> \<not> is_validation_msg m)"
  using assms
  by (auto simp add: remote_system_by_name_def msg_defs
      elim!: seqE sdk_callE split: list.splits if_splits)

lemma get_remote_system_details_effect:
  assumes "get_remote_system_details B rs a w = (r, w')"
  shows "extends w w' \<and> list_all is_remote_lookup (new_calls w w') \<and>
        (\<forall>m c. r = Inl (Fail_json m c) \<longrightarrow> \<not> is_validation_msg m) \<and> (\<forall>e. r \<noteq> Inl (Raised e))"
    using assms
    apply (simp add: get_remote_system_details_def Let_def)
    apply (erule try_exceptE)
     apply (auto simp add: msg_defs dest!: remote_system_by_name_effect
        elim!: seqE sdk_callE split: if_splits)
    done

lemma resolve_remote_system_effect:
  assumes "resolve_remote_system B P w = (r, w')"
  shows "extends w w' \<and> list_all is_remote_lookup (new_calls w w') \<and>
         (\<forall>m c. r = Inl (Fail_json m c) \<longrightarrow> \<not> is_validation_msg m)"
  using assms
  by (auto simp add: resolve_remote_system_def
      dest!: get_remote_system_details_effect elim!: seqE getitem_optE split: if_splits)

lemma get_replication_rule_details_effect:
  assumes "get_replication_rule_details B n i w = (r, w')"
  shows "extends w w' \<and> is_rule_lookup (new_calls w w') \<and>
         (\<forall>m c. r = Inl (Fail_json m c) \<longrightarrow> \<not> is_validation_msg m) \<and> (\<forall>e. r \<noteq> Inl (Raised e))"
  using assms
  apply (simp add: get_replication_rule_details_def)
  apply (erule try_exceptE)
   apply (auto simp add: msg_defs get_details_except_def Let_def
      elim!: seqE sdk_callE getitemE split: if_splits list.splits)
  done

lemma get_replication_rule_details_by_id_effect:
  assumes "get_replication_rule_details B PNone i w = (r, w')"
  shows "extends w w' \<and> new_calls w w' = [Get_replication_rule_details i]"
  using assms
  apply (simp add: get_replication_rule_details_def)
  apply (erule try_exceptE)
   apply (auto simp add: msg_defs get_details_except_def Let_def
      elim!: seqE sdk_callE getitemE split: if_splits list.splits)
  done

lemma fetch_current_effect:
  assumes "fetch_current B P w = (r, w')"
  shows "extends w w' \<and> is_rule_lookup (new_calls w w') \<and>
         (\<forall>m c. r = Inl (Fail_json m c) \<longrightarrow> \<not> is_validation_msg m) \<and>
         (\<forall>rid rname d. r = Inr (rid, rname, d) \<and> \<not> truthy_dict d \<longrightarrow>
            rid = of_str (p_replication_rule_id P) \<and> rname = of_str (p_replication_rule_name P))"
  using assms
  by (auto simp add: fetch_current_def
      dest!: get_replication_rule_details_effect elim!: seqE getitem_optE split: if_splits)



lemma delete_block_effect:
  assumes "delete_block B P rid v w = (r, w')"
  shows "extends w w' \<and> (new_calls w w' = [] \<or> p_state P = absent \<and> new_calls w w' = [Delete_replication_rule rid]) \<and>
         (\<forall>m c. r = Inl (Fail_json m c) \<longrightarrow> \<not> is_validation_msg m)"
  using assms
  apply (cases v)
  apply (simp add: delete_block_def delete_replication_rule_def split: if_splits)
  apply (erule seqE)
   apply (erule try_exceptE)
    apply (auto simp add: msg_defs elim!: seqE sdk_callE try_exceptE)
  done

lemma modify_replication_rule_effect:
  assumes "modify_replication_rule B rid n rpo rsid at w = (r, w')"
  shows "extends w w' \<and> new_calls w w' = [Modify_replication_rule rid n rpo rsid at] \<and>
         (\<forall>m c. r = Inl (Fail_json m c) \<longrightarrow> \<not> is_validation_msg m)"
  using assms
  apply (simp add: modify_replication_rule_def)
  apply (erule try_exceptE)
   apply (auto simp add: msg_defs elim!: seqE sdk_callE)
  done

lemma update_block_effect:
  assumes "update_block B P rsid rid v w = (r, w')"
  shows "extends w w' \<and>
         (new_calls w w' = [] \<or> p_state P = present \<and>
            new_calls w w' = [Modify_replication_rule rid (of_str (p_new_name P)) (of_str (p_rpo P))
                                rsid (of_int_opt (p_alert_threshold P))]) \<and>
         (\<forall>m c. r = Inl (Fail_json m c) \<longrightarrow> \<not> is_validation_msg m)"
  using assms
  by (cases v) (auto simp add: update_block_def
      dest!: modify_replication_rule_effect elim!: seqE getitemE
      split: if_splits option.splits)

lemma show_output_effect:
  assumes "show_output B rid a w = (r, w')"
  shows "extends w w' \<and> is_report (new_calls w w') \<and>
         (\<forall>m c. r = Inl (Fail_json m c) \<longrightarrow> \<not> is_validation_msg m)"
proof -
  from assms consider
    (stopped) e where "get_replication_rule_details B PNone rid w = (Inl e, w')" and "r = Inl e"
  | (fetched) d w1 where "get_replication_rule_details B PNone rid w = (Inr d, w1)"
      and "seq (getitem_opt d ''remote_system_id'')
            (\<lambda>rem_sys_id.
               seq (get_remote_system_details B rem_sys_id a)
                 (\<lambda>rem_sys. seq (getitem_opt rem_sys ''name'')
                    (\<lambda>rem_sys_name.
                       ret (map_option (\<lambda>d. setitem d ''remote_system_name'' rem_sys_name) d)))) w1
           = (r, w')"
    unfolding show_output_def by (erule seqE)
  then show ?thesis
  proof cases
    case stopped
    then show ?thesis
      using get_replication_rule_details_by_id_effect [OF stopped(1)]
        get_replication_rule_details_effect [OF stopped(1)]
      by simp
  next
    case fetched
    have first: "extends w w1" "new_calls w w1 = [Get_replication_rule_details rid]"
      using get_replication_rule_details_by_id_effect [OF fetched(1)] by simp_all
    have rest: "extends w1 w' \<and> list_all is_remote_lookup (new_calls w1 w') \<and>
         (\<forall>m c. r = Inl (Fail_json m c) \<longrightarrow> \<not> is_validation_msg m)"
      using fetched(2)
      by (auto dest!: get_remote_system_details_effect elim!: seqE getitem_optE)
    then show ?thesis
      using extends_trans [OF first(1), of w'] first(2) by simp
  qed
qed

lemma project_output_effect:
  assumes "project_output B P rid v w = (r, w')"
  shows "extends w w' \<and> (new_calls w w' = [] \<or> p_state P = present \<and> is_report (new_calls w w')) \<and>
         (\<forall>m c. r = Inl (Fail_json m c) \<longrightarrow> \<not> is_validation_msg m)"
  using assms
  by (cases v) (auto simp add: project_output_def
      dest!: show_output_effect elim!: seqE split: if_splits)

lemma run_phases_append:
  "run_phases p (xs @ ys) = (case run_phases p xs of None \<Rightarrow> None | Some q \<Rightarrow> run_phases q ys)"
  by (induction xs arbitrary: p) (auto split: option.splits)

lemma remote_lookup_not_mutating: "is_remote_lookup c \<Longrightarrow> \<not> is_mutating c"
  by (cases c) auto

lemma remote_lookups_not_mutating: "list_all is_remote_lookup t \<Longrightarrow> filter is_mutating t = []"
  by (induction t) (auto simp add: remote_lookup_not_mutating)

lemma remote_lookups_resolving:
  "list_all is_remote_lookup t \<Longrightarrow> run_phases Resolving t = Some Resolving"
proof (induction t)
  case Nil
  then show ?case by simp
next
  case (Cons c t)
  then show ?case by (cases c) auto
qed

lemma remote_lookups_reporting:
  "list_all is_remote_lookup t \<Longrightarrow> run_phases Reporting t = Some Reporting"
proof (induction t)
  case Nil
  then show ?case by simp
next
  case (Cons c t)
  then show ?case by (cases c) auto
qed

lemma remote_lookups_after:
  assumes "list_all is_remote_lookup t" and "p \<in> {Looked_up, Created, Modified, Created_modified}"
  shows "run_phases p t = Some (if t = [] then p else Reporting)"
proof (cases t)
  case Nil
  then show ?thesis by simp
next
  case (Cons c t')
  then show ?thesis
    using assms remote_lookups_reporting [of t'] by (cases c) auto
qed

lemma rule_lookup_phase:
  "is_rule_lookup t \<Longrightarrow> run_phases Resolving t = Some Looked_up \<and> filter is_mutating t = []"
  by (erule is_rule_lookup.elims) auto


lemma report_phase:
  assumes "is_report t" and "p \<in> {Looked_up, Created, Modified, Created_modified}"
  shows "run_phases p t \<noteq> None \<and> filter is_mutating t = []"
proof -
  from assms(1) obtain i t' where t: "t = Get_replication_rule_details i # t'"
    and r: "list_all is_remote_lookup t'"
    by (auto elim: is_report.elims)
  from assms(2) have "phase_step p (Get_replication_rule_details i) = Some p" by auto
  with t r show ?thesis
    using remote_lookups_after [OF r assms(2)] by (simp add: remote_lookups_not_mutating)
qed

text \<open>The blocks after the rule lookup.\<close>

lemma reconcile_cases:
  assumes "reconcile B P rsid (rid, rname, d) w = (r, w')"
  obtains (create_stopped) e where
      "create_block B P rsid (False, rid, rname, d) w = (Inl e, w')" and "r = Inl e"
  | (delete_stopped) c1 rid1 d1 w1 e where
      "create_block B P rsid (False, rid, rname, d) w = (Inr (c1, rid1, d1), w1)"
      and "delete_block B P rid1 (c1, d1) w1 = (Inl e, w')" and "r = Inl e"
  | (update_stopped) c1 rid1 d1 w1 v2 w2 e where
      "create_block B P rsid (False, rid, rname, d) w = (Inr (c1, rid1, d1), w1)"
      and "delete_block B P rid1 (c1, d1) w1 = (Inr v2, w2)"
      and "update_block B P rsid rid1 v2 w2 = (Inl e, w')" and "r = Inl e"
  | (reported) c1 rid1 d1 w1 v2 w2 v3 w3 where
      "create_block B P rsid (False, rid, rname, d) w = (Inr (c1, rid1, d1), w1)"
      and "delete_block B P rid1 (c1, d1) w1 = (Inr v2, w2)"
      and "update_block B P rsid rid1 v2 w2 = (Inr v3, w3)"
      and "project_output B P rid1 v3 w3 = (r, w')"
  using assms unfolding reconcile_def
  by (auto elim!: seqE)


lemma extends_chain:
  assumes "extends w w1" and "extends w1 w2" and "extends w2 w3" and "extends w3 w4"
  shows "extends w w4 \<and>
         new_calls w w4 = new_calls w w1 @ new_calls w1 w2 @ new_calls w2 w3 @ new_calls w3 w4"
  using extends_trans [OF assms(1) assms(2)] extends_trans [OF _ assms(3), of w]
    extends_trans [OF _ assms(4), of w]
  by simp


lemma perform_cases:
  assumes "perform_module_operation B P w = (r, w')"
  obtains (no_cluster) e where "resolve_cluster B w = (Inl e, w')" and "r = Inl e"
  | (no_remote) w1 e where "resolve_cluster B w = (Inr (), w1)"
      and "resolve_remote_system B P w1 = (Inl e, w')" and "r = Inl e"
  | (no_lookup) w1 rsid w2 e where "resolve_cluster B w = (Inr (), w1)"
      and "resolve_remote_system B P w1 = (Inr rsid, w2)"
      and "fetch_current B P w2 = (Inl e, w')" and "r = Inl e"
  | (reconciled) w1 rsid w2 rid rname d w3 where "resolve_cluster B w = (Inr (), w1)"
      and "resolve_remote_system B P w1 = (Inr rsid, w2)"
      and "fetch_current B P w2 = (Inr (rid, rname, d), w3)"
      and "reconcile B P rsid (rid, rname, d) w3 = (r, w')"
  using assms unfolding perform_module_operation_def
  by (auto elim!: seqE)

lemma resolved_effect:
  assumes "resolve_cluster B w = (Inr u, w1)"
    and "resolve_remote_system B P w1 = (Inr rsid, w2)"
    and "fetch_current B P w2 = (Inr v, w3)"
  shows "extends w w3 \<and> run_phases Started (new_calls w w3) = Some Looked_up \<and>
         filter is_mutating (new_calls w w3) = []"
proof -
  note 1 = resolve_cluster_effect [OF assms(1)]
    and 2 = resolve_remote_system_effect [OF assms(2)]
    and 3 = fetch_current_effect [OF assms(3)]
  from 1 2 3 have ch: "extends w w3 \<and>
      new_calls w w3 = new_calls w w1 @ new_calls w1 w2 @ new_calls w2 w3 @ []"
    using extends_chain [of w w1 w2 w3 w3] by simp
  from 1 2 3 show ?thesis
    using remote_lookups_resolving [of "new_calls w1 w2"] rule_lookup_phase [of "new_calls w2 w3"]
      remote_lookups_not_mutating [of "new_calls w1 w2"]
    by (simp add: ch run_phases_append)
qed


section \<open>The order of the SDK calls\<close>




section \<open>Input checks and SDK calls\<close>




section \<open>A rule that is absent\<close>

lemma perform_resolved:
  assumes "resolve_cluster B w = (Inr u, w1)"
    and "resolve_remote_system B P w1 = (Inr rsid, w2)"
    and "fetch_current B P w2 = (Inr v, w3)"
  shows "perform_module_operation B P w = reconcile B P rsid v w3"
  using assms by (simp add: perform_module_operation_def seq_def)

lemma from_init_world:
  "extends (init_world s) w' \<Longrightarrow> new_calls (init_world s) w' = trace w'"
  by (simp add: extends_def init_world_def)

lemma reconcile_absent_nothing:
  assumes "\<not> truthy_dict d" and "p_state P = absent"
  shows "reconcile B P rsid (rid, rname, d) w =
           (Inr \<lparr>r_changed = False, r_replication_rule_details = d\<rparr>, w)"
  using assms
  by (cases d) (simp_all add: reconcile_def create_block_def delete_block_def update_block_def
      project_output_def seq_def ret_def)

lemma world1: "resolve_cluster sim (init_world array0) = (Inr (), world1)"
  by code_simp

text \<open>
  C3.  An invocation with \<^verbatim>\<open>state: absent\<close> whose rule lookup returns nothing (\<^verbatim>\<open>None\<close>
  or an empty object) ends with \<^verbatim>\<open>exit_json\<close>, \<^verbatim>\<open>changed\<close> false, in the world the
  lookup left: no SDK call follows the lookup, and the calls before it (the cluster
  listing, the lookups of the remote system, the rule lookup) are not mutating.
\<close>

theorem absent_rule_absent_state:
  assumes "resolve_cluster B (init_world s) = (Inr u, w1)"
    and "resolve_remote_system B P w1 = (Inr rsid, w2)"
    and "fetch_current B P w2 = (Inr (rid, rname, d), w3)"
    and "\<not> truthy_dict d" and "p_state P = absent"
  shows "perform_module_operation B P (init_world s) =
           (Inr \<lparr>r_changed = False, r_replication_rule_details = d\<rparr>, w3) \<and>
         filter is_mutating (trace w3) = []"
proof -
  have "filter is_mutating (trace w3) = []"
    using resolved_effect [OF assms(1,2,3)] from_init_world [of s w3] by simp
  then show ?thesis
    using perform_resolved [OF assms(1,2,3)]
      reconcile_absent_nothing [OF assms(4,5), of B rsid rid rname w3]
    by simp
qed

theorem absent_rule_absent_state_witness:
  "resolve_cluster sim (init_world array0) = (Inr (), world1) \<and>
   resolve_remote_system sim P_absent world1 = (Inr PNone, world1) \<and>
   fetch_current sim P_absent world1 =
     (Inr (PNone, PStr ''N'', None), logged world1 array0 [Get_replication_rule_by_name (PStr ''N'')]) \<and>
   perform_module_operation sim P_absent (init_world array0) =
     (Inr \<lparr>r_changed = False, r_replication_rule_details = None\<rparr>,
      logged world1 array0 [Get_replication_rule_by_name (PStr ''N'')]) \<and>
   filter is_mutating (trace (logged world1 array0 [Get_replication_rule_by_name (PStr ''N'')])) = []"
proof -
  have r: "resolve_remote_system sim P_absent world1 = (Inr PNone, world1)"
    by code_simp
  have f: "fetch_current sim P_absent world1 =
     (Inr (PNone, PStr ''N'', None), logged world1 array0 [Get_replication_rule_by_name (PStr ''N'')])"
    by code_simp
  have a: "p_state P_absent = absent" by code_simp
  from absent_rule_absent_state [OF world1 r f _ a] world1 r f show ?thesis by simp
qed

section \<open>The create path\<close>

lemma create_block_rejects:
  assumes "\<not> truthy_dict d" and "p_state P = present" and "\<not> create_preconditions P"
  shows "create_block B P rsid (c, of_str (p_replication_rule_id P),
             of_str (p_replication_rule_name P), d) w =
           (Inl (Fail_json (Format
              (if truthy (of_str (p_replication_rule_id P)) then
                 ''To create a replication rule name is required. replication_rule_id is passed.''
               else if (case p_replication_rule_name P of None \<Rightarrow> True | Some n \<Rightarrow> strip n = []) then
                 ''Invalid rep_rule_name provided. Please enter a valid replication rule name.''
               else if \<not> truthy (of_str (p_remote_system P)) then
                 ''To create a replication rule remote_system is required.''
               else if p_new_name P \<noteq> None then
                 ''new_name parameter passed. Renaming a replication rule is invalid during creation.''
               else ''To create a replication rule rpo is required'') []) None), w)"
proof (cases "truthy (of_str (p_replication_rule_id P))")
  case True
  with assms(1,2) show ?thesis
    by (auto simp add: create_block_def id_passed_msg_def fail_json_def)
next
  case no_id: False
  show ?thesis
  proof (cases "case p_replication_rule_name P of None \<Rightarrow> True | Some n \<Rightarrow> strip n = []")
    case True
    with assms(1,2) no_id show ?thesis
      by (auto simp add: create_block_def invalid_name_msg_def fail_json_def blank_name_def
          seq_def ret_def split: option.splits)
  next
    case named: False
    then have nb: "blank_name (of_str (p_replication_rule_name P)) w = (Inr False, w)"
      by (auto simp add: blank_name_def ret_def split: option.splits)
    show ?thesis
    proof (cases "truthy (of_str (p_remote_system P))")
      case False
      with assms(1,2) no_id nb named show ?thesis
        by (auto simp add: create_block_def remote_system_required_msg_def fail_json_def seq_def)
    next
      case remote: True
      show ?thesis
      proof (cases "p_new_name P")
        case (Some n)
        with assms(1,2) no_id nb remote named show ?thesis
          by (auto simp add: create_block_def new_name_passed_msg_def fail_json_def seq_def)
      next
        case None
        with assms(3) no_id named remote have "\<not> truthy (of_str (p_rpo P))"
          by (auto simp add: create_preconditions_def split: option.splits)
        with assms(1,2) no_id nb remote None named show ?thesis
          by (auto simp add: create_block_def fail_json_def seq_def
              create_replication_rule_def try_except_def)
      qed
    qed
  qed
qed

lemma create_block_creates:
  assumes "\<not> truthy_dict d" and "p_state P = present" and "create_preconditions P"
    and "create_block B P rsid (c, of_str (p_replication_rule_id P),
             of_str (p_replication_rule_name P), d) w = (r, w')"
  shows "extends w w' \<and>
         take 1 (new_calls w w') =
           [Create_replication_rule (of_str (p_replication_rule_name P)) (of_str (p_rpo P)) rsid
              (of_int_opt (p_alert_threshold P))]"
proof -
  from assms(3) have no_id: "\<not> truthy (of_str (p_replication_rule_id P))"
    and nb: "blank_name (of_str (p_replication_rule_name P)) w = (Inr False, w)"
    and remote: "truthy (of_str (p_remote_system P))" and nn: "p_new_name P = None"
    and rpo: "truthy (of_str (p_rpo P))"
    by (auto simp add: create_preconditions_def blank_name_def ret_def split: option.splits)
  from assms(1,2,4) no_id nb remote nn
  have "seq (create_replication_rule B (of_str (p_replication_rule_name P)) (of_str (p_rpo P)) rsid
                          (of_int_opt (p_alert_threshold P)))
                     (\<lambda>(changed, rep_rule_details).
                        seq (getitem_opt rep_rule_details ''id'')
                          (\<lambda>rep_rule_id. ret (changed, rep_rule_id, rep_rule_details))) w = (r, w')"
    by (simp add: create_block_def seq_def)
  then show ?thesis
    using rpo
    apply (simp add: create_replication_rule_def)
    apply (erule seqE)
     apply (erule try_exceptE)
      apply (auto elim!: seqE sdk_callE getitem_optE try_exceptE)
    done
qed

lemma first_call_kept:
  assumes "extends w w1 \<and> take 1 (new_calls w w1) = [c]" and "extends w1 w'"
  shows "extends w w' \<and> take 1 (new_calls w w') = [c]"
proof -
  from assms(1) have "new_calls w w1 \<noteq> []" by auto
  with assms show ?thesis
    using extends_trans [of w w1 w'] by (cases "new_calls w w1") auto
qed

lemma reconcile_creates:
  assumes "\<not> truthy_dict d" and "p_state P = present" and "create_preconditions P"
    and "reconcile B P rsid (of_str (p_replication_rule_id P), of_str (p_replication_rule_name P), d) w
           = (r, w')"
  shows "extends w w' \<and>
         take 1 (new_calls w w') =
           [Create_replication_rule (of_str (p_replication_rule_name P)) (of_str (p_rpo P)) rsid
              (of_int_opt (p_alert_threshold P))]"
  using assms(4)
proof (cases rule: reconcile_cases)
  case (create_stopped e)
  from create_block_creates [OF assms(1,2,3) create_stopped(1)] show ?thesis .
next
  case (delete_stopped c1 rid1 d1 w1 e)
  note 1 = create_block_creates [OF assms(1,2,3) delete_stopped(1)]
    and 2 = delete_block_effect [OF delete_stopped(2)]
  from 2 have "extends w1 w'" by simp
  from first_call_kept [OF 1 this] show ?thesis .
next
  case (update_stopped c1 rid1 d1 w1 v2 w2 e)
  note 1 = create_block_creates [OF assms(1,2,3) update_stopped(1)]
    and 2 = delete_block_effect [OF update_stopped(2)]
    and 3 = update_block_effect [OF update_stopped(3)]
  from 2 3 have "extends w1 w'" using extends_trans [of w1 w2 w'] by simp
  from first_call_kept [OF 1 this] show ?thesis .
next
  case (reported c1 rid1 d1 w1 v2 w2 v3 w3)
  note 1 = create_block_creates [OF assms(1,2,3) reported(1)]
    and 2 = delete_block_effect [OF reported(2)]
    and 3 = update_block_effect [OF reported(3)]
    and 4 = project_output_effect [OF reported(4)]
  from 2 3 4 have "extends w1 w'"
    using extends_trans [of w1 w2 w3] extends_trans [of w1 w3 w'] by simp
  from first_call_kept [OF 1 this] show ?thesis .
qed


text \<open>
  C7, as the code has it.  Once the cluster is known:

  \<^item> when the resolution of the remote system fails, the invocation fails with that
    failure, before the rule lookup and without a mutating call;

  \<^item> when \<^verbatim>\<open>remote_system\<close> is given and \<^verbatim>\<open>get_remote_system_details\<close> returns \<open>rs\<close>, the
    resolution does not fail: the remote system id is the \<^verbatim>\<open>id\<close> of \<open>rs\<close>, and it is
    \<^verbatim>\<open>None\<close> when \<open>rs\<close> is \<^verbatim>\<open>None\<close> or empty;

  \<^item> when the remote system is resolved to \<open>rsid\<close>, the rule lookup finds nothing and
    the state is \<^verbatim>\<open>present\<close>: if the parameters satisfy \<open>create_preconditions\<close> (no id, a
    name that is not blank, a remote system, no new name, an rpo), the first SDK call
    after the rule lookup is the create call, with the name, the rpo, \<open>rsid\<close> and the
    alert threshold; otherwise the invocation fails in the world the lookup left, with
    the message of the first check that the parameters violate, and no mutating call
    has been made.
\<close>

theorem create_preconditions_enforced:
  assumes "resolve_cluster B (init_world s) = (Inr u, w1)"
  shows
    "(resolve_remote_system B P w1 = (Inl e, w2) \<longrightarrow>
        perform_module_operation B P (init_world s) = (Inl e, w2) \<and>
        filter is_mutating (trace w2) = []) \<and>
     (truthy (of_str (p_remote_system P)) \<and>
      get_remote_system_details B (of_str (p_remote_system P))
        (of_str (p_remote_system_address P)) w1 = (Inr rs, w2) \<longrightarrow>
        resolve_remote_system B P w1 =
          (case rs of
             None \<Rightarrow> (Inr PNone, w2)
           | Some r \<Rightarrow>
               if r = [] then (Inr PNone, w2)
               else (case map_of r ''id'' of
                       None \<Rightarrow> (Inl (Raised (KeyError ''id'')), w2)
                     | Some i \<Rightarrow> (Inr i, w2)))) \<and>
     (resolve_remote_system B P w1 = (Inr rsid, w2) \<and>
      fetch_current B P w2 = (Inr (rid, rname, d), w3) \<and>
      \<not> truthy_dict d \<and> p_state P = present \<longrightarrow>
        (if create_preconditions P then
           extends w3 (snd (perform_module_operation B P (init_world s))) \<and>
           take 1 (new_calls w3 (snd (perform_module_operation B P (init_world s)))) =
             [Create_replication_rule (of_str (p_replication_rule_name P)) (of_str (p_rpo P)) rsid
                (of_int_opt (p_alert_threshold P))]
         else
           perform_module_operation B P (init_world s) =
             (Inl (Fail_json (Format
                (if truthy (of_str (p_replication_rule_id P)) then
                   ''To create a replication rule name is required. replication_rule_id is passed.''
                 else if (case p_replication_rule_name P of None \<Rightarrow> True | Some n \<Rightarrow> strip n = []) then
                   ''Invalid rep_rule_name provided. Please enter a valid replication rule name.''
                 else if \<not> truthy (of_str (p_remote_system P)) then
                   ''To create a replication rule remote_system is required.''
                 else if p_new_name P \<noteq> None then
                   ''new_name parameter passed. Renaming a replication rule is invalid during creation.''
                 else ''To create a replication rule rpo is required'') []) None), w3) \<and>
           filter is_mutating (trace w3) = []))"
proof (intro conjI impI)
  assume r: "resolve_remote_system B P w1 = (Inl e, w2)"
  with assms show "perform_module_operation B P (init_world s) = (Inl e, w2)"
    by (simp add: perform_module_operation_def seq_def)
  note 1 = resolve_cluster_effect [OF assms] and 2 = resolve_remote_system_effect [OF r]
  from 1 2 have "extends (init_world s) w2 \<and>
      new_calls (init_world s) w2 = new_calls (init_world s) w1 @ new_calls w1 w2"
    using extends_trans [of "init_world s" w1 w2] by simp
  with 1 have "trace w2 = [Get_cluster_list] @ new_calls w1 w2"
    using from_init_world [of s w2] by simp
  with 2 show "filter is_mutating (trace w2) = []"
    using remote_lookups_not_mutating [of "new_calls w1 w2"] by simp
next
  assume "truthy (of_str (p_remote_system P)) \<and>
      get_remote_system_details B (of_str (p_remote_system P))
        (of_str (p_remote_system_address P)) w1 = (Inr rs, w2)"
  then show "resolve_remote_system B P w1 =
          (case rs of
             None \<Rightarrow> (Inr PNone, w2)
           | Some r \<Rightarrow>
               if r = [] then (Inr PNone, w2)
               else (case map_of r ''id'' of
                       None \<Rightarrow> (Inl (Raised (KeyError ''id'')), w2)
                     | Some i \<Rightarrow> (Inr i, w2)))"
    by (simp add: resolve_remote_system_def seq_def getitem_opt_def getitem_def ret_def raise_def
        split: option.splits)
next
  assume h: "resolve_remote_system B P w1 = (Inr rsid, w2) \<and>
      fetch_current B P w2 = (Inr (rid, rname, d), w3) \<and>
      \<not> truthy_dict d \<and> p_state P = present"
  then have r: "resolve_remote_system B P w1 = (Inr rsid, w2)"
    and f: "fetch_current B P w2 = (Inr (rid, rname, d), w3)"
    and d: "\<not> truthy_dict d" and p: "p_state P = present"
    by simp_all
  from fetch_current_effect [OF f] d
  have ids: "rid = of_str (p_replication_rule_id P)" "rname = of_str (p_replication_rule_name P)"
    by simp_all
  note run = perform_resolved [OF assms r f]
  show "if create_preconditions P then
           extends w3 (snd (perform_module_operation B P (init_world s))) \<and>
           take 1 (new_calls w3 (snd (perform_module_operation B P (init_world s)))) =
             [Create_replication_rule (of_str (p_replication_rule_name P)) (of_str (p_rpo P)) rsid
                (of_int_opt (p_alert_threshold P))]
         else
           perform_module_operation B P (init_world s) =
             (Inl (Fail_json (Format
                (if truthy (of_str (p_replication_rule_id P)) then
                   ''To create a replication rule name is required. replication_rule_id is passed.''
                 else if (case p_replication_rule_name P of None \<Rightarrow> True | Some n \<Rightarrow> strip n = []) then
                   ''Invalid rep_rule_name provided. Please enter a valid replication rule name.''
                 else if \<not> truthy (of_str (p_remote_system P)) then
                   ''To create a replication rule remote_system is required.''
                 else if p_new_name P \<noteq> None then
                   ''new_name parameter passed. Renaming a replication rule is invalid during creation.''
                 else ''To create a replication rule rpo is required'') []) None), w3) \<and>
           filter is_mutating (trace w3) = []"
  proof (cases "create_preconditions P")
    case True
    have "reconcile B P rsid (of_str (p_replication_rule_id P), of_str (p_replication_rule_name P), d) w3
        = (fst (perform_module_operation B P (init_world s)),
           snd (perform_module_operation B P (init_world s)))"
      using run ids by simp
    from reconcile_creates [OF d p True this] True show ?thesis by simp
  next
    case False
    from create_block_rejects [OF d p False, of B rsid False w3]
    have "perform_module_operation B P (init_world s) =
             (Inl (Fail_json (Format
                (if truthy (of_str (p_replication_rule_id P)) then
                   ''To create a replication rule name is required. replication_rule_id is passed.''
                 else if (case p_replication_rule_name P of None \<Rightarrow> True | Some n \<Rightarrow> strip n = []) then
                   ''Invalid rep_rule_name provided. Please enter a valid replication rule name.''
                 else if \<not> truthy (of_str (p_remote_system P)) then
                   ''To create a replication rule remote_system is required.''
                 else if p_new_name P \<noteq> None then
                   ''new_name parameter passed. Renaming a replication rule is invalid during creation.''
                 else ''To create a replication rule rpo is required'') []) None), w3)"
      using run ids by (simp add: reconcile_def seq_def)
    moreover from resolved_effect [OF assms r f] have "filter is_mutating (trace w3) = []"
      using from_init_world [of s w3] by simp
    ultimately show ?thesis using False by simp
  qed
qed


theorem create_preconditions_enforced_witness:
  "perform_module_operation sim P_unknown_remote (init_world array0) =
     (Inl (Fail_json
        (Format ''Remote system with name {0} and address {1} not found. Please enter a valid remote system.''
           [Val (PStr ''RS9''), Val PNone]) None),
      logged world1 array0 [Get_remote_system_by_name (PStr ''RS9'') None]) \<and>
   filter is_mutating (trace (logged world1 array0 [Get_remote_system_by_name (PStr ''RS9'') None])) = [] \<and>
   resolve_remote_system lenient P_unknown_id world1 =
     (Inr PNone, logged world1 array0 [Get_remote_system_details (PStr ''#rs9'')]) \<and>
   perform_module_operation sim P_blank (init_world array0) =
     (Inl (Fail_json
        (Format ''Invalid rep_rule_name provided. Please enter a valid replication rule name.'' [])
        None),
      logged world1 array0 [Get_remote_system_by_name (PStr ''RS3'') None,
                            Get_replication_rule_by_name (PStr ''  '')]) \<and>
   filter is_mutating (trace (logged world1 array0 [Get_remote_system_by_name (PStr ''RS3'') None,
                               Get_replication_rule_by_name (PStr ''  '')])) = [] \<and>
   take 1 (new_calls
       (logged world1 array0 [Get_remote_system_by_name (PStr ''RS3'') None,
                              Get_replication_rule_by_name (PStr ''N'')])
       (snd (perform_module_operation sim P_create (init_world array0)))) =
     [Create_replication_rule (PStr ''N'') (PStr ''Five_Minutes'') (PStr ''#rs3'') (PInt 15)]"
proof -
  have r1: "resolve_remote_system sim P_unknown_remote world1 =
      (Inl (Fail_json
        (Format ''Remote system with name {0} and address {1} not found. Please enter a valid remote system.''
           [Val (PStr ''RS9''), Val PNone]) None),
       logged world1 array0 [Get_remote_system_by_name (PStr ''RS9'') None])"
    by code_simp
  have w: "resolve_cluster lenient (init_world array0) = (Inr (), world1)"
    by code_simp
  have g: "truthy (of_str (p_remote_system P_unknown_id)) \<and>
      get_remote_system_details lenient (of_str (p_remote_system P_unknown_id))
        (of_str (p_remote_system_address P_unknown_id)) world1 =
      (Inr (Some []), logged world1 array0 [Get_remote_system_details (PStr ''#rs9'')])"
    by code_simp
  have r2: "resolve_remote_system sim P_blank world1 =
      (Inr (PStr ''#rs3''), logged world1 array0 [Get_remote_system_by_name (PStr ''RS3'') None])"
    by code_simp
  have f2: "fetch_current sim P_blank (logged world1 array0 [Get_remote_system_by_name (PStr ''RS3'') None]) =
      (Inr (PNone, PStr ''  '', None),
       logged world1 array0 [Get_remote_system_by_name (PStr ''RS3'') None,
                             Get_replication_rule_by_name (PStr ''  '')])"
    by code_simp
  have p2: "p_state P_blank = present" and c2: "\<not> create_preconditions P_blank"
    and v2: "\<not> truthy (of_str (p_replication_rule_id P_blank))"
      "(case p_replication_rule_name P_blank of None \<Rightarrow> True | Some n \<Rightarrow> strip n = [])"
    by code_simp+
  have r3: "resolve_remote_system sim P_create world1 =
      (Inr (PStr ''#rs3''), logged world1 array0 [Get_remote_system_by_name (PStr ''RS3'') None])"
    by code_simp
  have f3: "fetch_current sim P_create (logged world1 array0 [Get_remote_system_by_name (PStr ''RS3'') None]) =
      (Inr (PNone, PStr ''N'', None),
       logged world1 array0 [Get_remote_system_by_name (PStr ''RS3'') None,
                             Get_replication_rule_by_name (PStr ''N'')])"
    by code_simp
  have p3: "p_state P_create = present" and c3: "create_preconditions P_create"
    and v3: "of_str (p_replication_rule_name P_create) = PStr ''N''"
      "of_str (p_rpo P_create) = PStr ''Five_Minutes''"
      "of_int_opt (p_alert_threshold P_create) = PInt 15"
    by code_simp+
  from create_preconditions_enforced [OF world1, where P = P_unknown_remote
      and ?w2.0 = "logged world1 array0 [Get_remote_system_by_name (PStr ''RS9'') None]"
      and e = "Fail_json
        (Format ''Remote system with name {0} and address {1} not found. Please enter a valid remote system.''
           [Val (PStr ''RS9''), Val PNone]) None"] r1
  have a: "perform_module_operation sim P_unknown_remote (init_world array0) =
     (Inl (Fail_json
        (Format ''Remote system with name {0} and address {1} not found. Please enter a valid remote system.''
           [Val (PStr ''RS9''), Val PNone]) None),
      logged world1 array0 [Get_remote_system_by_name (PStr ''RS9'') None]) \<and>
   filter is_mutating (trace (logged world1 array0 [Get_remote_system_by_name (PStr ''RS9'') None])) = []"
    by simp
  from create_preconditions_enforced [OF w, where P = P_unknown_id and rs = "Some []"
      and ?w2.0 = "logged world1 array0 [Get_remote_system_details (PStr ''#rs9'')]"] g
  have b: "resolve_remote_system lenient P_unknown_id world1 =
     (Inr PNone, logged world1 array0 [Get_remote_system_details (PStr ''#rs9'')])"
    by simp
  from create_preconditions_enforced [OF world1, where P = P_blank and rsid = "PStr ''#rs3''"
      and ?w2.0 = "logged world1 array0 [Get_remote_system_by_name (PStr ''RS3'') None]"
      and rid = PNone and rname = "PStr ''  ''" and d = None
      and ?w3.0 = "logged world1 array0 [Get_remote_system_by_name (PStr ''RS3'') None,
                             Get_replication_rule_by_name (PStr ''  '')]"] r2 f2 p2 c2 v2
  have c: "perform_module_operation sim P_blank (init_world array0) =
     (Inl (Fail_json
        (Format ''Invalid rep_rule_name provided. Please enter a valid replication rule name.'' [])
        None),
      logged world1 array0 [Get_remote_system_by_name (PStr ''RS3'') None,
                            Get_replication_rule_by_name (PStr ''  '')]) \<and>
   filter is_mutating (trace (logged world1 array0 [Get_remote_system_by_name (PStr ''RS3'') None,
                               Get_replication_rule_by_name (PStr ''  '')])) = []"
    by simp
  from create_preconditions_enforced [OF world1, where P = P_create and rsid = "PStr ''#rs3''"
      and ?w2.0 = "logged world1 array0 [Get_remote_system_by_name (PStr ''RS3'') None]"
      and rid = PNone and rname = "PStr ''N''" and d = None
      and ?w3.0 = "logged world1 array0 [Get_remote_system_by_name (PStr ''RS3'') None,
                             Get_replication_rule_by_name (PStr ''N'')]"] r3 f3 p3 c3 v3
  have d: "take 1 (new_calls
       (logged world1 array0 [Get_remote_system_by_name (PStr ''RS3'') None,
                              Get_replication_rule_by_name (PStr ''N'')])
       (snd (perform_module_operation sim P_create (init_world array0)))) =
     [Create_replication_rule (PStr ''N'') (PStr ''Five_Minutes'') (PStr ''#rs3'') (PInt 15)]"
    by simp
  from a b c d show ?thesis by simp
qed

text \<open>
  C7 as stated fails.  On an array whose lookup of a remote system by id answers an
  unknown id with an empty object, a request that names the remote system by an id
  that no remote system has creates the rule, with \<^verbatim>\<open>remote_system_id\<close> \<^verbatim>\<open>None\<close>: the
  remote system was not resolved to an existing one, no input check failed, and the
  array has the new rule.  (The invocation then ends in the \<^verbatim>\<open>TypeError\<close> of
  \<^verbatim>\<open>show_output\<close>, which finds no remote system for the stored \<^verbatim>\<open>None\<close>.)
\<close>

theorem created_without_remote_system:
  "find (has_id (PStr ''#rs9'')) (a_remote_systems array0) = None \<and>
   create_preconditions P_unknown_id \<and>
   trace (snd (perform_module_operation lenient P_unknown_id (init_world array0))) =
     [Get_cluster_list,
      Get_remote_system_details (PStr ''#rs9''),
      Get_replication_rule_by_name (PStr ''N''),
      Create_replication_rule (PStr ''N'') (PStr ''Five_Minutes'') PNone PNone,
      Get_replication_rule_details (PStr ''rrrrrrr''),
      Get_replication_rule_details (PStr ''rrrrrrr'')] \<and>
   a_rules (bstate (snd (perform_module_operation lenient P_unknown_id (init_world array0)))) =
     a_rules array0 @
     [[(''id'', PStr ''rrrrrrr''), (''name'', PStr ''N''), (''rpo'', PStr ''Five_Minutes''),
       (''remote_system_id'', PNone), (''alert_threshold'', PInt 5),
       (''is_replica'', PBool False), (''policies'', PList [])]] \<and>
   fst (perform_module_operation lenient P_unknown_id (init_world array0)) =
     Inl (Raised (TypeError (CHR 0x27 # ''NoneType'' @ CHR 0x27 # '' object is not subscriptable'')))"
  by code_simp

section \<open>Where the reported object comes from\<close>

lemma get_details_by_id_returned:
  assumes "get_replication_rule_details B PNone rid w = (Inr (Some d), w')"
  shows "\<exists>s1. protection_get_replication_rule_details B rid (bstate w) = (Inr d, s1) \<and>
           w' = logged w s1 [Get_replication_rule_details rid]"
  using assms
  apply (simp add: get_replication_rule_details_def)
  apply (erule try_exceptE)
   apply (auto simp add: get_details_except_def Let_def
      elim!: seqE sdk_callE getitemE split: if_splits list.splits)
  done

lemma show_output_returned:
  assumes "show_output B rid a w = (Inr x, w')"
  shows "\<exists>s1 d rsid rs nm.
           protection_get_replication_rule_details B rid (bstate w) = (Inr d, s1) \<and>
           map_of d ''remote_system_id'' = Some rsid \<and>
           get_remote_system_details B rsid a (logged w s1 [Get_replication_rule_details rid])
             = (Inr (Some rs), w') \<and>
           map_of rs ''name'' = Some nm \<and>
           x = Some (setitem d ''remote_system_name'' nm)"
  using assms unfolding show_output_def
  by (auto elim!: seqE getitem_optE dest!: get_details_by_id_returned)

lemma remote_system_by_name_returned:
  assumes "remote_system_by_name B n a w = (Inr (Some rs), w')"
  shows "\<exists>resp s1.
           protection_get_remote_system_by_name B n None (bstate w) = (Inr resp, s1) \<and>
           (resp = [rs] \<and> w' = logged w s1 [Get_remote_system_by_name n None] \<or>
            1 < length resp \<and> truthy a \<and>
            (\<exists>s2. protection_get_remote_system_by_name B n (Some a) s1 = (Inr [rs], s2) \<and>
               w' = logged w s2 [Get_remote_system_by_name n None,
                                 Get_remote_system_by_name n (Some a)]))"
  using assms unfolding remote_system_by_name_def
  by (auto elim!: seqE sdk_callE split: list.splits if_splits)

lemma get_remote_system_details_returned:
  assumes "get_remote_system_details B i a w = (Inr (Some rs), w')"
  shows "truthy i \<and>
         (if utils_name_or_id B i = ''NAME'' then
            \<exists>resp s1.
              protection_get_remote_system_by_name B i None (bstate w) = (Inr resp, s1) \<and>
              (resp = [rs] \<and> w' = logged w s1 [Get_remote_system_by_name i None] \<or>
               1 < length resp \<and> truthy a \<and>
               (\<exists>s2. protection_get_remote_system_by_name B i (Some a) s1 = (Inr [rs], s2) \<and>
                  w' = logged w s2 [Get_remote_system_by_name i None,
                                    Get_remote_system_by_name i (Some a)]))
          else
            \<exists>s1. protection_get_remote_system_details B i (bstate w) = (Inr rs, s1) \<and>
                 w' = logged w s1 [Get_remote_system_details i])"
proof (cases "i \<noteq> PNone \<and> utils_name_or_id B i = ''NAME''")
  case True
  show ?thesis
  proof (cases "truthy i")
    case t: True
    with True assms have "remote_system_by_name B i a w = (Inr (Some rs), w')"
      by (auto simp add: get_remote_system_details_def Let_def elim!: try_exceptE)
    from remote_system_by_name_returned [OF this] True t show ?thesis by simp
  next
    case False
    with True assms show ?thesis
      by (auto simp add: get_remote_system_details_def Let_def elim!: try_exceptE)
  qed
next
  case False
  with assms show ?thesis
    by (auto simp add: get_remote_system_details_def Let_def
        elim!: try_exceptE seqE sdk_callE split: if_splits)
qed

lemma fetch_current_found:
  assumes "fetch_current B P w = (Inr (rid, rname, d), w')" and "truthy_dict d"
  shows "if truthy (of_str (p_replication_rule_id P)) then rid = of_str (p_replication_rule_id P)
         else \<exists>dd. d = Some dd \<and> map_of dd ''id'' = Some rid"
  using assms unfolding fetch_current_def
  by (auto elim!: seqE getitem_optE split: if_splits)

lemma create_replication_rule_returned:
  assumes "create_replication_rule B n rpo rsid at w = (Inr (c, d), w')"
  shows "\<exists>resp s1 dc s2.
           protection_create_replication_rule B n rpo rsid at (bstate w) = (Inr resp, s1) \<and>
           protection_get_replication_rule_details B (dict_get resp ''id'') s1 = (Inr dc, s2) \<and>
           c \<and> d = Some dc \<and>
           w' = logged w s2 [Create_replication_rule n rpo rsid at,
                             Get_replication_rule_details (dict_get resp ''id'')]"
  using assms
  apply (simp add: create_replication_rule_def)
  apply (erule try_exceptE)
   apply (auto elim!: seqE sdk_callE split: if_splits)
  done

lemma create_block_returned:
  assumes "create_block B P rsid (c, rid0, rname, d0) w = (Inr (c1, rid, d1), w')"
    and "p_state P = present"
  shows "if truthy_dict d0 then c1 = c \<and> rid = rid0 \<and> d1 = d0 \<and> w' = w
         else
           \<exists>resp s1 dc s2.
             protection_create_replication_rule B rname (of_str (p_rpo P)) rsid
                 (of_int_opt (p_alert_threshold P)) (bstate w) = (Inr resp, s1) \<and>
             protection_get_replication_rule_details B (dict_get resp ''id'') s1 = (Inr dc, s2) \<and>
             c1 \<and> d1 = Some dc \<and> map_of dc ''id'' = Some rid \<and>
             w' = logged w s2
                    [Create_replication_rule rname (of_str (p_rpo P)) rsid
                       (of_int_opt (p_alert_threshold P)),
                     Get_replication_rule_details (dict_get resp ''id'')]"
proof (cases "truthy_dict d0")
  case True
  with assms show ?thesis by (simp add: create_block_def)
next
  case False
  with assms obtain d w0 where
    cr: "create_replication_rule B rname (of_str (p_rpo P)) rsid
           (of_int_opt (p_alert_threshold P)) w = (Inr (c1, d), w0)"
    and gi: "getitem_opt d ''id'' w0 = (Inr rid, w')" and d1: "d1 = d"
    by (auto simp add: create_block_def blank_name_def elim!: seqE
        split: if_splits pyval.splits)
  from create_replication_rule_returned [OF cr] obtain resp s1 dc s2 where
    sdk: "protection_create_replication_rule B rname (of_str (p_rpo P)) rsid
            (of_int_opt (p_alert_threshold P)) (bstate w) = (Inr resp, s1)"
      "protection_get_replication_rule_details B (dict_get resp ''id'') s1 = (Inr dc, s2)"
    and c1: "c1" and d: "d = Some dc"
    and w0: "w0 = logged w s2
                    [Create_replication_rule rname (of_str (p_rpo P)) rsid
                       (of_int_opt (p_alert_threshold P)),
                     Get_replication_rule_details (dict_get resp ''id'')]"
    by blast
  from gi d have "map_of dc ''id'' = Some rid" and "w' = w0"
    by (auto elim!: getitem_optE)
  with sdk c1 d d1 w0 False show ?thesis by auto
qed

lemma delete_block_present:
  "p_state P = present \<Longrightarrow> delete_block B P rid v w = (Inr v, w)"
  by (cases v) (simp add: delete_block_def ret_def)

lemma modify_replication_rule_returned:
  assumes "modify_replication_rule B rid n rpo rsid at w = (Inr (c, d), w')"
  shows "\<exists>resp s1.
           protection_modify_replication_rule B rid n rpo rsid at (bstate w) = (Inr resp, s1) \<and>
           c \<and> d = Some resp \<and> w' = logged w s1 [Modify_replication_rule rid n rpo rsid at]"
  using assms
  apply (simp add: modify_replication_rule_def)
  apply (erule try_exceptE)
   apply (auto elim!: seqE sdk_callE)
  done

lemma update_block_returned:
  assumes "update_block B P rsid rid (c, d1) w = (Inr (c', held), w')"
  shows "c' = c \<and> held = d1 \<and> w' = w \<or>
         (\<exists>resp s1.
            protection_modify_replication_rule B rid (of_str (p_new_name P)) (of_str (p_rpo P)) rsid
                (of_int_opt (p_alert_threshold P)) (bstate w) = (Inr resp, s1) \<and>
            c' \<and> held = Some resp \<and>
            w' = logged w s1
                   [Modify_replication_rule rid (of_str (p_new_name P)) (of_str (p_rpo P)) rsid
                      (of_int_opt (p_alert_threshold P))])"
proof -
  from assms consider
    (kept) "c' = c" and "held = d1" and "w' = w"
  | (modified) "modify_replication_rule B rid (of_str (p_new_name P)) (of_str (p_rpo P)) rsid
                  (of_int_opt (p_alert_threshold P)) w = (Inr (c', held), w')"
    by (auto simp add: update_block_def elim!: seqE getitemE split: option.splits if_splits)
  then show ?thesis
  proof cases
    case kept
    then show ?thesis by simp
  next
    case modified
    from modify_replication_rule_returned [OF modified] show ?thesis by blast
  qed
qed

lemma project_output_returned:
  assumes "project_output B P rid (c, held) w = (Inr res, w')" and "p_state P = present"
  shows "r_changed res = c \<and>
         (if truthy_dict held
          then show_output B rid (of_str (p_remote_system_address P)) w
                 = (Inr (r_replication_rule_details res), w')
          else r_replication_rule_details res = held \<and> w' = w)"
  using assms
  by (auto simp add: project_output_def elim!: seqE split: if_splits)


text \<open>
  C9, as the code has it.  Take an invocation with \<^verbatim>\<open>state: present\<close> that ends with
  \<^verbatim>\<open>exit_json\<close>, whose remote system was resolved to \<open>rsid\<close> and whose rule lookup
  returned the id \<open>rid0\<close> and the object \<open>d0\<close> in the world \<open>w3\<close>.

  \<^item> The id \<open>rid\<close> and the object \<open>d1\<close> after the create block: when the rule was found,
    they are those of the lookup, and \<open>rid\<close> is the \<^verbatim>\<open>replication_rule_id\<close> given or else
    the \<^verbatim>\<open>id\<close> of the object found; when it was not, the SDK's create call was made,
    \<open>d1\<close> is the SDK's answer to the fetch by the id of the create call's answer, and
    \<open>rid\<close> is the \<^verbatim>\<open>id\<close> of \<open>d1\<close>.

  \<^item> The object \<open>held\<close> after the update block is \<open>d1\<close>, or else the answer of the SDK's
    modify call.

  \<^item> When \<open>held\<close> is neither \<^verbatim>\<open>None\<close> nor empty, the reported object is the SDK's
    answer \<open>d\<close> to a fetch by the id \<open>rid\<close>, made after the create and modify calls,
    with \<^verbatim>\<open>remote_system_name\<close> set to the \<^verbatim>\<open>name\<close> of the remote system \<open>rs\<close> that the
    SDK returns for the \<^verbatim>\<open>remote_system_id\<close> of \<open>d\<close>: by the lookup by id, or, when
    \<^verbatim>\<open>name_or_id\<close> takes that value for a name, by the lookup by name (the only
    match, or the only match with the address); these are the last SDK calls of the
    invocation.  Otherwise \<open>held\<close> is the answer of the modify call: it is reported
    as it is, and no SDK call follows the modify call.
\<close>

theorem reported_object_is_refetched:
  assumes "resolve_cluster B w = (Inr u, w1)"
    and "resolve_remote_system B P w1 = (Inr rsid, w2)"
    and "fetch_current B P w2 = (Inr (rid0, rname, d0), w3)"
    and "p_state P = present"
    and "perform_module_operation B P w = (Inr res, w')"
  shows "\<exists>rid d1 w4 held w5.
     (if truthy_dict d0 then
        rid = rid0 \<and> d1 = d0 \<and> w4 = w3 \<and>
        (if truthy (of_str (p_replication_rule_id P)) then rid = of_str (p_replication_rule_id P)
         else \<exists>dd. d0 = Some dd \<and> map_of dd ''id'' = Some rid)
      else
        \<exists>resp s1 dc s2.
          protection_create_replication_rule B rname (of_str (p_rpo P)) rsid
              (of_int_opt (p_alert_threshold P)) (bstate w3) = (Inr resp, s1) \<and>
          protection_get_replication_rule_details B (dict_get resp ''id'') s1 = (Inr dc, s2) \<and>
          d1 = Some dc \<and> map_of dc ''id'' = Some rid \<and>
          w4 = logged w3 s2
                 [Create_replication_rule rname (of_str (p_rpo P)) rsid
                    (of_int_opt (p_alert_threshold P)),
                  Get_replication_rule_details (dict_get resp ''id'')]) \<and>
     (held = d1 \<and> w5 = w4 \<or>
      (\<exists>resp s1.
         protection_modify_replication_rule B rid (of_str (p_new_name P)) (of_str (p_rpo P)) rsid
             (of_int_opt (p_alert_threshold P)) (bstate w4) = (Inr resp, s1) \<and>
         held = Some resp \<and>
         w5 = logged w4 s1
                [Modify_replication_rule rid (of_str (p_new_name P)) (of_str (p_rpo P)) rsid
                   (of_int_opt (p_alert_threshold P))])) \<and>
     (if truthy_dict held then
        \<exists>d s1 rs_id rs nm.
          protection_get_replication_rule_details B rid (bstate w5) = (Inr d, s1) \<and>
          map_of d ''remote_system_id'' = Some rs_id \<and>
          (if utils_name_or_id B rs_id = ''NAME'' then
             \<exists>resp s2.
               protection_get_remote_system_by_name B rs_id None s1 = (Inr resp, s2) \<and>
               (resp = [rs] \<and>
                w' = logged w5 s2 [Get_replication_rule_details rid,
                                   Get_remote_system_by_name rs_id None] \<or>
                1 < length resp \<and> truthy (of_str (p_remote_system_address P)) \<and>
                (\<exists>s3. protection_get_remote_system_by_name B rs_id
                         (Some (of_str (p_remote_system_address P))) s2 = (Inr [rs], s3) \<and>
                   w' = logged w5 s3
                          [Get_replication_rule_details rid,
                           Get_remote_system_by_name rs_id None,
                           Get_remote_system_by_name rs_id
                             (Some (of_str (p_remote_system_address P)))]))
           else
             \<exists>s2. protection_get_remote_system_details B rs_id s1 = (Inr rs, s2) \<and>
                w' = logged w5 s2 [Get_replication_rule_details rid,
                                   Get_remote_system_details rs_id]) \<and>
          map_of rs ''name'' = Some nm \<and>
          r_replication_rule_details res = Some (setitem d ''remote_system_name'' nm)
      else r_replication_rule_details res = held \<and> w' = w5)"
proof -
  have "reconcile B P rsid (rid0, rname, d0) w3 = (Inr res, w')"
    using perform_resolved [OF assms(1,2,3)] assms(5) by simp
  then show ?thesis
  proof (cases rule: reconcile_cases)
    case (reported c1 rid d1 w4 v2 v2' v3 w5)
    obtain c3 held where v3: "v3 = (c3, held)" by (cases v3)
    from reported(2) have v2: "v2 = (c1, d1)" "v2' = w4"
      using delete_block_present [OF assms(4), of B rid "(c1, d1)" w4] by simp_all
    have A: "if truthy_dict d0 then
        rid = rid0 \<and> d1 = d0 \<and> w4 = w3 \<and>
        (if truthy (of_str (p_replication_rule_id P)) then rid = of_str (p_replication_rule_id P)
         else \<exists>dd. d0 = Some dd \<and> map_of dd ''id'' = Some rid)
      else
        \<exists>resp s1 dc s2.
          protection_create_replication_rule B rname (of_str (p_rpo P)) rsid
              (of_int_opt (p_alert_threshold P)) (bstate w3) = (Inr resp, s1) \<and>
          protection_get_replication_rule_details B (dict_get resp ''id'') s1 = (Inr dc, s2) \<and>
          d1 = Some dc \<and> map_of dc ''id'' = Some rid \<and>
          w4 = logged w3 s2
                 [Create_replication_rule rname (of_str (p_rpo P)) rsid
                    (of_int_opt (p_alert_threshold P)),
                  Get_replication_rule_details (dict_get resp ''id'')]"
    proof (cases "truthy_dict d0")
      case True
      with create_block_returned [OF reported(1) assms(4)] fetch_current_found [OF assms(3)]
      show ?thesis by simp
    next
      case False
      with create_block_returned [OF reported(1) assms(4)] show ?thesis by auto
    qed
    have B: "held = d1 \<and> w5 = w4 \<or>
      (\<exists>resp s1.
         protection_modify_replication_rule B rid (of_str (p_new_name P)) (of_str (p_rpo P)) rsid
             (of_int_opt (p_alert_threshold P)) (bstate w4) = (Inr resp, s1) \<and>
         held = Some resp \<and>
         w5 = logged w4 s1
                [Modify_replication_rule rid (of_str (p_new_name P)) (of_str (p_rpo P)) rsid
                   (of_int_opt (p_alert_threshold P))])"
      using update_block_returned [of B P rsid rid c1 d1 w4 c3 held w5] reported(3) v2 v3
      by auto
    note out = project_output_returned [of B P rid c3 held w5 res w', OF _ assms(4)]
    have C: "if truthy_dict held then
        \<exists>d s1 rs_id rs nm.
          protection_get_replication_rule_details B rid (bstate w5) = (Inr d, s1) \<and>
          map_of d ''remote_system_id'' = Some rs_id \<and>
          (if utils_name_or_id B rs_id = ''NAME'' then
             \<exists>resp s2.
               protection_get_remote_system_by_name B rs_id None s1 = (Inr resp, s2) \<and>
               (resp = [rs] \<and>
                w' = logged w5 s2 [Get_replication_rule_details rid,
                                   Get_remote_system_by_name rs_id None] \<or>
                1 < length resp \<and> truthy (of_str (p_remote_system_address P)) \<and>
                (\<exists>s3. protection_get_remote_system_by_name B rs_id
                         (Some (of_str (p_remote_system_address P))) s2 = (Inr [rs], s3) \<and>
                   w' = logged w5 s3
                          [Get_replication_rule_details rid,
                           Get_remote_system_by_name rs_id None,
                           Get_remote_system_by_name rs_id
                             (Some (of_str (p_remote_system_address P)))]))
           else
             \<exists>s2. protection_get_remote_system_details B rs_id s1 = (Inr rs, s2) \<and>
                w' = logged w5 s2 [Get_replication_rule_details rid,
                                   Get_remote_system_details rs_id]) \<and>
          map_of rs ''name'' = Some nm \<and>
          r_replication_rule_details res = Some (setitem d ''remote_system_name'' nm)
      else r_replication_rule_details res = held \<and> w' = w5"
    proof (cases "truthy_dict held")
      case False
      with out reported(4) v3 show ?thesis by simp
    next
      case True
      with out reported(4) v3
      have "show_output B rid (of_str (p_remote_system_address P)) w5
                 = (Inr (r_replication_rule_details res), w')"
        by simp
      from show_output_returned [OF this] obtain s1 d rs_id rs nm where
        fetched: "protection_get_replication_rule_details B rid (bstate w5) = (Inr d, s1)"
        and key: "map_of d ''remote_system_id'' = Some rs_id"
        and remote: "get_remote_system_details B rs_id (of_str (p_remote_system_address P))
               (logged w5 s1 [Get_replication_rule_details rid]) = (Inr (Some rs), w')"
        and name: "map_of rs ''name'' = Some nm"
        and res: "r_replication_rule_details res = Some (setitem d ''remote_system_name'' nm)"
        by blast
      from get_remote_system_details_returned [OF remote]
      have "if utils_name_or_id B rs_id = ''NAME'' then
             \<exists>resp s2.
               protection_get_remote_system_by_name B rs_id None s1 = (Inr resp, s2) \<and>
               (resp = [rs] \<and>
                w' = logged w5 s2 [Get_replication_rule_details rid,
                                   Get_remote_system_by_name rs_id None] \<or>
                1 < length resp \<and> truthy (of_str (p_remote_system_address P)) \<and>
                (\<exists>s3. protection_get_remote_system_by_name B rs_id
                         (Some (of_str (p_remote_system_address P))) s2 = (Inr [rs], s3) \<and>
                   w' = logged w5 s3
                          [Get_replication_rule_details rid,
                           Get_remote_system_by_name rs_id None,
                           Get_remote_system_by_name rs_id
                             (Some (of_str (p_remote_system_address P)))]))
           else
             \<exists>s2. protection_get_remote_system_details B rs_id s1 = (Inr rs, s2) \<and>
                w' = logged w5 s2 [Get_replication_rule_details rid,
                                   Get_remote_system_details rs_id]"
        by (simp split: if_splits)
      with True fetched key name res show ?thesis by auto
    qed
    from A B C show ?thesis by blast
  qed simp_all
qed


theorem reported_object_is_refetched_witness:
  "resolve_cluster sim (init_world array0) = (Inr (), world1) \<and>
   resolve_remote_system sim P_rename world1 = (Inr PNone, world1) \<and>
   fetch_current sim P_rename world1 =
     (Inr (PStr ''#rule1'', PStr ''A'', Some rule1), (logged world1 array0 [Get_replication_rule_by_name (PStr ''A''), Get_replication_rule_details (PStr ''#rule1'')])) \<and>
   p_state P_rename = present \<and>
   perform_module_operation sim P_rename (init_world array0) =
     (Inr \<lparr>r_changed = True,
           r_replication_rule_details =
             Some [(''id'', PStr ''#rule1''), (''name'', PStr ''B''), (''rpo'', PStr ''One_Hour''),
                   (''remote_system_id'', PStr ''#rs3''), (''alert_threshold'', PInt 60),
                   (''remote_system_name'', PStr ''RS3'')]\<rparr>,
      snd (perform_module_operation sim P_rename (init_world array0))) \<and>
   trace (snd (perform_module_operation sim P_rename (init_world array0))) =
     [Get_cluster_list,
      Get_replication_rule_by_name (PStr ''A''),
      Get_replication_rule_details (PStr ''#rule1''),
      Modify_replication_rule (PStr ''#rule1'') (PStr ''B'') PNone PNone PNone,
      Get_replication_rule_details (PStr ''#rule1''),
      Get_remote_system_details (PStr ''#rs3'')] \<and>
   (\<exists>rid d1 w4 held w5.
     (if truthy_dict (Some rule1) then
        rid = (PStr ''#rule1'') \<and> d1 = (Some rule1) \<and> w4 = (logged world1 array0 [Get_replication_rule_by_name (PStr ''A''), Get_replication_rule_details (PStr ''#rule1'')]) \<and>
        (if truthy (of_str (p_replication_rule_id P_rename)) then rid = of_str (p_replication_rule_id P_rename)
         else \<exists>dd. (Some rule1) = Some dd \<and> map_of dd ''id'' = Some rid)
      else
        \<exists>resp s1 dc s2.
          protection_create_replication_rule sim (PStr ''A'') (of_str (p_rpo P_rename)) PNone
              (of_int_opt (p_alert_threshold P_rename)) (bstate (logged world1 array0 [Get_replication_rule_by_name (PStr ''A''), Get_replication_rule_details (PStr ''#rule1'')])) = (Inr resp, s1) \<and>
          protection_get_replication_rule_details sim (dict_get resp ''id'') s1 = (Inr dc, s2) \<and>
          d1 = Some dc \<and> map_of dc ''id'' = Some rid \<and>
          w4 = logged (logged world1 array0 [Get_replication_rule_by_name (PStr ''A''), Get_replication_rule_details (PStr ''#rule1'')]) s2
                 [Create_replication_rule (PStr ''A'') (of_str (p_rpo P_rename)) PNone
                    (of_int_opt (p_alert_threshold P_rename)),
                  Get_replication_rule_details (dict_get resp ''id'')]) \<and>
     (held = d1 \<and> w5 = w4 \<or>
      (\<exists>resp s1.
         protection_modify_replication_rule sim rid (of_str (p_new_name P_rename)) (of_str (p_rpo P_rename)) PNone
             (of_int_opt (p_alert_threshold P_rename)) (bstate w4) = (Inr resp, s1) \<and>
         held = Some resp \<and>
         w5 = logged w4 s1
                [Modify_replication_rule rid (of_str (p_new_name P_rename)) (of_str (p_rpo P_rename)) PNone
                   (of_int_opt (p_alert_threshold P_rename))])) \<and>
     (if truthy_dict held then
        \<exists>d s1 rs_id rs nm.
          protection_get_replication_rule_details sim rid (bstate w5) = (Inr d, s1) \<and>
          map_of d ''remote_system_id'' = Some rs_id \<and>
          (if utils_name_or_id sim rs_id = ''NAME'' then
             \<exists>resp s2.
               protection_get_remote_system_by_name sim rs_id None s1 = (Inr resp, s2) \<and>
               (resp = [rs] \<and>
                (snd (perform_module_operation sim P_rename (init_world array0))) = logged w5 s2 [Get_replication_rule_details rid,
                                   Get_remote_system_by_name rs_id None] \<or>
                1 < length resp \<and> truthy (of_str (p_remote_system_address P_rename)) \<and>
                (\<exists>s3. protection_get_remote_system_by_name sim rs_id
                         (Some (of_str (p_remote_system_address P_rename))) s2 = (Inr [rs], s3) \<and>
                   (snd (perform_module_operation sim P_rename (init_world array0))) = logged w5 s3
                          [Get_replication_rule_details rid,
                           Get_remote_system_by_name rs_id None,
                           Get_remote_system_by_name rs_id
                             (Some (of_str (p_remote_system_address P_rename)))]))
           else
             \<exists>s2. protection_get_remote_system_details sim rs_id s1 = (Inr rs, s2) \<and>
                (snd (perform_module_operation sim P_rename (init_world array0))) = logged w5 s2 [Get_replication_rule_details rid,
                                   Get_remote_system_details rs_id]) \<and>
          map_of rs ''name'' = Some nm \<and>
          r_replication_rule_details (\<lparr>r_changed = True,
           r_replication_rule_details =
             Some [(''id'', PStr ''#rule1''), (''name'', PStr ''B''), (''rpo'', PStr ''One_Hour''),
                   (''remote_system_id'', PStr ''#rs3''), (''alert_threshold'', PInt 60),
                   (''remote_system_name'', PStr ''RS3'')]\<rparr>) = Some (setitem d ''remote_system_name'' nm)
      else r_replication_rule_details (\<lparr>r_changed = True,
           r_replication_rule_details =
             Some [(''id'', PStr ''#rule1''), (''name'', PStr ''B''), (''rpo'', PStr ''One_Hour''),
                   (''remote_system_id'', PStr ''#rs3''), (''alert_threshold'', PInt 60),
                   (''remote_system_name'', PStr ''RS3'')]\<rparr>) = held \<and> (snd (perform_module_operation sim P_rename (init_world array0))) = w5))"
proof -
  have r: "resolve_remote_system sim P_rename world1 = (Inr PNone, world1)"
    by code_simp
  have f: "fetch_current sim P_rename world1 =
     (Inr (PStr ''#rule1'', PStr ''A'', Some rule1), (logged world1 array0 [Get_replication_rule_by_name (PStr ''A''), Get_replication_rule_details (PStr ''#rule1'')]))"
    by code_simp
  have p: "p_state P_rename = present" by code_simp
  have "fst (perform_module_operation sim P_rename (init_world array0)) =
     Inr \<lparr>r_changed = True,
           r_replication_rule_details =
             Some [(''id'', PStr ''#rule1''), (''name'', PStr ''B''), (''rpo'', PStr ''One_Hour''),
                   (''remote_system_id'', PStr ''#rs3''), (''alert_threshold'', PInt 60),
                   (''remote_system_name'', PStr ''RS3'')]\<rparr>"
    by code_simp
  then have h: "perform_module_operation sim P_rename (init_world array0) =
     (Inr \<lparr>r_changed = True,
           r_replication_rule_details =
             Some [(''id'', PStr ''#rule1''), (''name'', PStr ''B''), (''rpo'', PStr ''One_Hour''),
                   (''remote_system_id'', PStr ''#rs3''), (''alert_threshold'', PInt 60),
                   (''remote_system_name'', PStr ''RS3'')]\<rparr>,
      snd (perform_module_operation sim P_rename (init_world array0)))"
    by (metis prod.collapse)
  have t: "trace (snd (perform_module_operation sim P_rename (init_world array0))) =
     [Get_cluster_list,
      Get_replication_rule_by_name (PStr ''A''),
      Get_replication_rule_details (PStr ''#rule1''),
      Modify_replication_rule (PStr ''#rule1'') (PStr ''B'') PNone PNone PNone,
      Get_replication_rule_details (PStr ''#rule1''),
      Get_remote_system_details (PStr ''#rs3'')]"
    by code_simp
  from reported_object_is_refetched [OF world1 r f p h] world1 r f p h t show ?thesis
    by (intro conjI)
qed

text \<open>
  C9 as stated fails.  On an array whose modify call makes the change and answers
  with an empty object, a request that changes the rpo of the rule \<open>A\<close> ends with
  \<^verbatim>\<open>changed\<close> true and the rule modified on the array, and reports the empty answer of
  the modify call: the modify call is the last SDK call, the rule is not fetched
  again, and the reported object has no \<^verbatim>\<open>remote_system_name\<close>.
\<close>

theorem modify_answer_reported:
  "fst (perform_module_operation silent P_modify (init_world array0)) =
     Inr \<lparr>r_changed = True, r_replication_rule_details = Some []\<rparr> \<and>
   trace (snd (perform_module_operation silent P_modify (init_world array0))) =
     [Get_cluster_list,
      Get_replication_rule_by_name (PStr ''A''),
      Get_replication_rule_details (PStr ''#rule1''),
      Modify_replication_rule (PStr ''#rule1'') PNone (PStr ''Five_Minutes'') PNone PNone] \<and>
   a_rules (bstate (snd (perform_module_operation silent P_modify (init_world array0)))) =
     [[(''id'', PStr ''#rule1''), (''name'', PStr ''A''), (''rpo'', PStr ''Five_Minutes''),
       (''remote_system_id'', PStr ''#rs3''), (''alert_threshold'', PInt 60)]]"
  by code_simp

section \<open>The decision to modify\<close>

lemma required_loop_iff:
  "required_loop ks d p \<longleftrightarrow>
     (\<exists>key\<in>set ks. \<exists>pv dv. map_of p key = Some pv \<and> pv \<noteq> PNone \<and>
        map_of d key = Some dv \<and> \<not> py_eq dv pv)"
  by (induction ks) (auto split: option.splits)

lemma update_block_decides:
  assumes "d \<noteq> []" and "p_state P = present"
    and "(case p_new_name P of None \<Rightarrow> map_of d ''name'' | Some n \<Rightarrow> Some (PStr n)) = Some name"
  shows "update_block B P rsid rid (changed, Some d) w =
           (if modify_replication_rule_required d (new_rep_rule_dict name P rsid)
            then modify_replication_rule B rid (of_str (p_new_name P)) (of_str (p_rpo P)) rsid
                   (of_int_opt (p_alert_threshold P)) w
            else (Inr (changed, Some d), w))"
  using assms
  by (auto simp add: update_block_def seq_def getitem_def ret_def split: option.splits)

lemma reconcile_no_op:
  assumes "d \<noteq> []" and "p_state P = present"
    and "(case p_new_name P of None \<Rightarrow> map_of d ''name'' | Some n \<Rightarrow> Some (PStr n)) = Some name"
    and "\<not> modify_replication_rule_required d (new_rep_rule_dict name P rsid)"
  shows "reconcile B P rsid (rid, rname, Some d) w = project_output B P rid (False, Some d) w"
  using assms update_block_decides [OF assms(1,2,3), of B rsid rid False w]
  by (simp add: reconcile_def create_block_def delete_block_def seq_def ret_def)

text \<open>
  C1.  \<^verbatim>\<open>modify_replication_rule_required\<close> holds exactly when some key of the current
  object has, in the passed arguments, a value that is not \<^verbatim>\<open>None\<close> and differs (in
  the sense of Python's \<^verbatim>\<open>!=\<close>) from the current value.  For an existing rule \<open>d\<close> and
  \<^verbatim>\<open>state: present\<close>, with the desired name \<open>name\<close> (the new name, or else the current
  one): when it holds, the update block is the call of \<^verbatim>\<open>modify_replication_rule\<close>;
  when it does not, the update block makes no SDK call and hands on \<^verbatim>\<open>changed\<close> and
  the current object as they are, the whole reconciliation is the output stage run on
  \<^verbatim>\<open>changed = False\<close> and the current object, and a result has \<^verbatim>\<open>changed\<close> false after
  no mutating call.
\<close>

theorem modify_decision:
  "(modify_replication_rule_required d p \<longleftrightarrow>
      (\<exists>key\<in>set (map fst d). \<exists>pv dv. map_of p key = Some pv \<and> pv \<noteq> PNone \<and>
         map_of d key = Some dv \<and> \<not> py_eq dv pv)) \<and>
   (d \<noteq> [] \<and> p_state P = present \<and>
    (case p_new_name P of None \<Rightarrow> map_of d ''name'' | Some n \<Rightarrow> Some (PStr n)) = Some name \<longrightarrow>
      (if modify_replication_rule_required d (new_rep_rule_dict name P rsid)
       then update_block B P rsid rid (changed, Some d) w =
              modify_replication_rule B rid (of_str (p_new_name P)) (of_str (p_rpo P)) rsid
                (of_int_opt (p_alert_threshold P)) w
       else update_block B P rsid rid (changed, Some d) w = (Inr (changed, Some d), w) \<and>
            reconcile B P rsid (rid, rname, Some d) w = project_output B P rid (False, Some d) w \<and>
            (\<forall>res w'. reconcile B P rsid (rid, rname, Some d) w = (Inr res, w') \<longrightarrow>
               \<not> r_changed res \<and> filter is_mutating (new_calls w w') = [])))"
proof (intro conjI impI)
  show "modify_replication_rule_required d p \<longleftrightarrow>
      (\<exists>key\<in>set (map fst d). \<exists>pv dv. map_of p key = Some pv \<and> pv \<noteq> PNone \<and>
         map_of d key = Some dv \<and> \<not> py_eq dv pv)"
    unfolding modify_replication_rule_required_def by (rule required_loop_iff)
next
  assume h: "d \<noteq> [] \<and> p_state P = present \<and>
    (case p_new_name P of None \<Rightarrow> map_of d ''name'' | Some n \<Rightarrow> Some (PStr n)) = Some name"
  then have 1: "d \<noteq> []" and 2: "p_state P = present"
    and 3: "(case p_new_name P of None \<Rightarrow> map_of d ''name'' | Some n \<Rightarrow> Some (PStr n)) = Some name"
    by simp_all
  show "if modify_replication_rule_required d (new_rep_rule_dict name P rsid)
       then update_block B P rsid rid (changed, Some d) w =
              modify_replication_rule B rid (of_str (p_new_name P)) (of_str (p_rpo P)) rsid
                (of_int_opt (p_alert_threshold P)) w
       else update_block B P rsid rid (changed, Some d) w = (Inr (changed, Some d), w) \<and>
            reconcile B P rsid (rid, rname, Some d) w = project_output B P rid (False, Some d) w \<and>
            (\<forall>res w'. reconcile B P rsid (rid, rname, Some d) w = (Inr res, w') \<longrightarrow>
               \<not> r_changed res \<and> filter is_mutating (new_calls w w') = [])"
  proof (cases "modify_replication_rule_required d (new_rep_rule_dict name P rsid)")
    case True
    then show ?thesis using update_block_decides [OF 1 2 3, of B rsid rid changed w] by simp
  next
    case False
    note same = reconcile_no_op [OF 1 2 3 False, of B rid rname w]
    have "\<not> r_changed res \<and> filter is_mutating (new_calls w w') = []"
      if "project_output B P rid (False, Some d) w = (Inr res, w')" for res w'
    proof -
      from that have "r_changed res = False"
        by (auto simp add: project_output_def elim!: seqE)
      moreover from project_output_effect [OF that]
      have "filter is_mutating (new_calls w w') = []"
        using report_phase [of "new_calls w w'" Looked_up] by auto
      ultimately show ?thesis by simp
    qed
    with False same show ?thesis
      using update_block_decides [OF 1 2 3, of B rsid rid changed w] by simp
  qed
qed

theorem modify_decision_witness:
  "\<not> modify_replication_rule_required rule1 (new_rep_rule_dict (PStr ''A'') P_get PNone) \<and>
   update_block sim P_get PNone (PStr ''#rule1'') (False, Some rule1) world1 =
     (Inr (False, Some rule1), world1) \<and>
   reconcile sim P_get PNone (PStr ''#rule1'', PStr ''A'', Some rule1) world1 =
     project_output sim P_get (PStr ''#rule1'') (False, Some rule1) world1 \<and>
   modify_replication_rule_required rule1 (new_rep_rule_dict (PStr ''A'') P_modify PNone) \<and>
   update_block sim P_modify PNone (PStr ''#rule1'') (False, Some rule1) world1 =
     modify_replication_rule sim (PStr ''#rule1'') PNone (PStr ''Five_Minutes'') PNone PNone world1"
proof -
  have no: "\<not> modify_replication_rule_required rule1 (new_rep_rule_dict (PStr ''A'') P_get PNone)"
    by code_simp
  have yes: "modify_replication_rule_required rule1 (new_rep_rule_dict (PStr ''A'') P_modify PNone)"
    by code_simp
  have pre: "rule1 \<noteq> [] \<and> p_state P_get = present \<and>
      (case p_new_name P_get of None \<Rightarrow> map_of rule1 ''name'' | Some n \<Rightarrow> Some (PStr n)) = Some (PStr ''A'')"
    by code_simp
  have pre': "rule1 \<noteq> [] \<and> p_state P_modify = present \<and>
      (case p_new_name P_modify of None \<Rightarrow> map_of rule1 ''name'' | Some n \<Rightarrow> Some (PStr n)) = Some (PStr ''A'')"
    by code_simp
  have vals: "of_str (p_new_name P_modify) = PNone" "of_str (p_rpo P_modify) = PStr ''Five_Minutes''"
    "of_int_opt (p_alert_threshold P_modify) = PNone"
    by code_simp+
  from modify_decision [where d = rule1 and P = P_get and name = "PStr ''A''" and rsid = PNone
      and B = sim and rid = "PStr ''#rule1''" and changed = False and w = world1
      and rname = "PStr ''A''"] no pre
  have a: "update_block sim P_get PNone (PStr ''#rule1'') (False, Some rule1) world1 =
     (Inr (False, Some rule1), world1) \<and>
   reconcile sim P_get PNone (PStr ''#rule1'', PStr ''A'', Some rule1) world1 =
     project_output sim P_get (PStr ''#rule1'') (False, Some rule1) world1"
    by simp
  from modify_decision [where d = rule1 and P = P_modify and name = "PStr ''A''" and rsid = PNone
      and B = sim and rid = "PStr ''#rule1''" and changed = False and w = world1] yes pre' vals
  have b: "update_block sim P_modify PNone (PStr ''#rule1'') (False, Some rule1) world1 =
     modify_replication_rule sim (PStr ''#rule1'') PNone (PStr ''Five_Minutes'') PNone PNone world1"
    by simp
  from no yes a b show ?thesis by simp
qed

section \<open>Outcomes on related arrays\<close>

lemma agrees_refl [simp]: "agrees r r"
  by (auto simp add: agrees_def split: sum.splits stop.splits)

lemma agrees_Inr [simp]: "agrees (Inr x) r \<longleftrightarrow> r = Inr x"
  by (auto simp add: agrees_def split: sum.splits stop.splits)

lemma agrees_Raised [simp]: "agrees (Inl (Raised e)) r \<longleftrightarrow> r = Inl (Raised e)"
  by (auto simp add: agrees_def split: sum.splits stop.splits)

lemma agrees_Fail [simp]: "agrees (Inl (Fail_json m c)) r \<longleftrightarrow> (\<exists>m' c'. r = Inl (Fail_json m' c'))"
  by (auto simp add: agrees_def split: sum.splits stop.splits)

lemma frame_relD:
  assumes "frame_rel R m" and "R (bstate w) (bstate v)" and "m w = (Inr x, w')"
  shows "\<exists>v'. m v = (Inr x, v') \<and> R (bstate w') (bstate v')"
proof -
  from assms have "agrees (Inr x) (fst (m v))" and "R (bstate w') (bstate (snd (m v)))"
    unfolding frame_rel_def by (metis fst_conv, metis snd_conv)
  then show ?thesis by (cases "m v") auto
qed

lemma frame_ret: "frame_rel R (ret x)"
  by (simp add: frame_rel_def ret_def)

lemma frame_raise: "frame_rel R (raise e)"
  by (simp add: frame_rel_def raise_def)

lemma frame_fail_json: "frame_rel R (\<lambda>w. fail_json (g w) c w)"
  by (simp add: frame_rel_def fail_json_def)

lemma frame_seq:
  fixes m :: "('s, 'a) action" and f :: "'a \<Rightarrow> ('s, 'b) action"
  assumes "frame_rel R m" and "\<And>x. frame_rel R (f x)"
  shows "frame_rel R (seq m f)"
  unfolding frame_rel_def
proof (intro allI impI)
  fix w v :: "'s world" assume r: "R (bstate w) (bstate v)"
  from assms(1) r have a: "agrees (fst (m w)) (fst (m v))"
    and b: "R (bstate (snd (m w))) (bstate (snd (m v)))"
    by (simp_all add: frame_rel_def)
  show "agrees (fst (seq m f w)) (fst (seq m f v)) \<and>
        R (bstate (snd (seq m f w))) (bstate (snd (seq m f v)))"
  proof (cases "m w")
    case (Pair r1 w1)
    show ?thesis
    proof (cases r1)
      case (Inl e)
      with Pair a b show ?thesis
        by (cases "m v"; cases e) (auto simp add: seq_def)
    next
      case (Inr x)
      with Pair a have "fst (m v) = Inr x" by simp
      then obtain v1 where v: "m v = (Inr x, v1)" by (cases "m v") auto
      from assms(2) [of x] b Pair v have "agrees (fst (f x w1)) (fst (f x v1)) \<and>
        R (bstate (snd (f x w1))) (bstate (snd (f x v1)))"
        by (simp add: frame_rel_def)
      with Pair Inr v show ?thesis by (simp add: seq_def)
    qed
  qed
qed

lemma frame_try_except:
  fixes m :: "('s, 'a) action"
  assumes "frame_rel R m" and "\<And>e. frame_rel R (h e)"
  shows "frame_rel R (try_except m h)"
  unfolding frame_rel_def
proof (intro allI impI)
  fix w v :: "'s world" assume r: "R (bstate w) (bstate v)"
  from assms(1) r have a: "agrees (fst (m w)) (fst (m v))"
    and b: "R (bstate (snd (m w))) (bstate (snd (m v)))"
    by (simp_all add: frame_rel_def)
  show "agrees (fst (try_except m h w)) (fst (try_except m h v)) \<and>
        R (bstate (snd (try_except m h w))) (bstate (snd (try_except m h v)))"
  proof (cases "m w")
    case (Pair r1 w1)
    show ?thesis
    proof (cases r1)
      case (Inr x)
      with Pair a have "fst (m v) = Inr x" by simp
      then obtain v1 where v: "m v = (Inr x, v1)" by (cases "m v") auto
      with Pair Inr b show ?thesis by (simp add: try_except_def)
    next
      case (Inl e)
      show ?thesis
      proof (cases e)
        case (Raised x)
        with Pair Inl a have "fst (m v) = Inl (Raised x)" by simp
        then obtain v1 where v: "m v = (Inl (Raised x), v1)" by (cases "m v") auto
        from assms(2) [of x] b Pair v have "agrees (fst (h x w1)) (fst (h x v1)) \<and>
          R (bstate (snd (h x w1))) (bstate (snd (h x v1)))"
          by (simp add: frame_rel_def)
        with Pair Inl Raised v show ?thesis by (simp add: try_except_def)
      next
        case (Fail_json msg c)
        with Pair Inl a obtain m' c' where "fst (m v) = Inl (Fail_json m' c')" by auto
        then obtain v1 where v: "m v = (Inl (Fail_json m' c'), v1)" by (cases "m v") auto
        with Pair Inl Fail_json b show ?thesis by (simp add: try_except_def)
      qed
    qed
  qed
qed

lemma frame_sdk_call:
  fixes f :: "'s \<Rightarrow> (exn + 'a) \<times> 's"
  assumes "compat R f"
  shows "frame_rel R (sdk_call c f)"
  unfolding frame_rel_def
proof (intro allI impI)
  fix w v :: "'s world" assume r: "R (bstate w) (bstate v)"
  with assms have "fst (f (bstate w)) = fst (f (bstate v))"
    and "R (snd (f (bstate w))) (snd (f (bstate v)))"
    by (simp_all add: compat_def)
  then show "agrees (fst (sdk_call c f w)) (fst (sdk_call c f v)) \<and>
        R (bstate (snd (sdk_call c f w))) (bstate (snd (sdk_call c f v)))"
    by (cases "f (bstate w)"; cases "f (bstate v)")
      (auto simp add: sdk_call_def split: sum.splits)
qed

lemma frame_getitem: "frame_rel R (getitem d k)"
  by (simp add: getitem_def frame_ret frame_raise split: option.splits)

lemma frame_getitem_opt: "frame_rel R (getitem_opt d k)"
  by (simp add: getitem_opt_def frame_getitem frame_raise split: option.splits)

lemma frame_set_cluster:
  "frame_rel R (set_cluster_name n)" "frame_rel R (set_cluster_global_id i)"
  by (simp_all add: frame_rel_def set_cluster_name_def set_cluster_global_id_def)

lemma frame_if:
  "(c \<Longrightarrow> frame_rel R a) \<Longrightarrow> (\<not> c \<Longrightarrow> frame_rel R b) \<Longrightarrow> frame_rel R (if c then a else b)"
  by simp

lemmas frame_intros = frame_ret frame_raise frame_fail_json frame_seq frame_try_except
  frame_getitem frame_getitem_opt frame_set_cluster frame_if

lemma frame_get_clusters:
  assumes "compat R (provisioning_get_cluster_list B)"
  shows "frame_rel R (get_clusters B)"
  unfolding get_clusters_def
  by (intro frame_try_except frame_sdk_call assms frame_fail_json)

lemma frame_resolve_cluster:
  assumes "compat R (provisioning_get_cluster_list B)"
  shows "frame_rel R (resolve_cluster B)"
  unfolding resolve_cluster_def
  by (auto intro!: frame_intros frame_get_clusters assms split: list.splits)

lemma frame_remote_system_by_name:
  assumes "remote_compat R B"
  shows "frame_rel R (remote_system_by_name B n a)"
  using assms unfolding remote_system_by_name_def remote_compat_def
  by (auto intro!: frame_intros frame_sdk_call split: list.splits)

lemma frame_get_remote_system_details:
  assumes "remote_compat R B"
  shows "frame_rel R (get_remote_system_details B rs a)"
  using assms frame_remote_system_by_name [OF assms]
  unfolding get_remote_system_details_def remote_compat_def Let_def
  by (auto intro!: frame_intros frame_sdk_call)

lemma frame_resolve_remote_system:
  assumes "remote_compat R B"
  shows "frame_rel R (resolve_remote_system B P)"
  using frame_get_remote_system_details [OF assms]
  unfolding resolve_remote_system_def
  by (auto intro!: frame_intros)

lemma frame_get_details_except: "frame_rel R (get_details_except n i e)"
  by (simp add: frame_rel_def get_details_except_def Let_def ret_def fail_json_def)

lemma frame_get_replication_rule_details:
  assumes "rule_compat R B"
  shows "frame_rel R (get_replication_rule_details B n i)"
  using assms unfolding get_replication_rule_details_def rule_compat_def
  by (auto intro!: frame_intros frame_sdk_call frame_get_details_except split: list.splits)

lemma frame_show_output:
  assumes "rule_compat R B" and "remote_compat R B"
  shows "frame_rel R (show_output B rid a)"
  using frame_get_replication_rule_details [OF assms(1)] frame_get_remote_system_details [OF assms(2)]
  unfolding show_output_def
  by (auto intro!: frame_intros)

lemma compat_eq: "compat (=) f"
  by (simp add: compat_def)

lemma show_output_same_array:
  assumes "show_output B rid a w = (Inr x, w')" and "bstate v = bstate w"
  shows "\<exists>v'. show_output B rid a v = (Inr x, v') \<and> bstate v' = bstate w'"
proof -
  have "frame_rel (=) (show_output B rid a)"
    by (intro frame_show_output) (simp_all add: rule_compat_def remote_compat_def compat_eq)
  from frame_relD [OF this _ assms(1), of v] assms(2) show ?thesis by auto
qed

section \<open>Rules of the simulated array\<close>

lemma py_eq_list_refl: "(\<And>x. x \<in> set xs \<Longrightarrow> py_eq x x) \<Longrightarrow> py_eq_list xs xs"
  by (induction xs) auto

lemma py_eq_refl: "py_eq v v"
  by (induction v) (auto intro: py_eq_list_refl)

lemma map_of_setitem: "map_of (setitem d k v) = (map_of d)(k \<mapsto> v)"
  by (induction d) (auto simp add: fun_eq_iff)

lemma setitem_not_empty [simp]: "setitem d k v \<noteq> []"
  by (cases d) (auto split: if_splits)

lemma map_of_upd:
  "map_of (upd k v r) k' = (if v \<noteq> PNone \<and> k' = k then Some v else map_of r k')"
  by (simp add: upd_def map_of_setitem)

lemma upd_not_empty: "r \<noteq> [] \<Longrightarrow> upd k v r \<noteq> []"
  by (simp add: upd_def)

lemma modified_not_empty: "r \<noteq> [] \<Longrightarrow> modified r n rpo rsid at \<noteq> []"
  by (simp add: modified_def upd_not_empty)

lemma map_of_modified:
  "map_of (modified r n rpo rsid at) k =
     (if k = ''alert_threshold'' \<and> at \<noteq> PNone then Some at
      else if k = ''remote_system_id'' \<and> rsid \<noteq> PNone then Some rsid
      else if k = ''rpo'' \<and> rpo \<noteq> PNone then Some rpo
      else if k = ''name'' \<and> n \<noteq> PNone then Some n
      else map_of r k)"
  by (simp add: modified_def map_of_upd)

lemma has_id_modified [simp]: "has_id i (modified r n rpo rsid at) = has_id i r"
  by (simp add: has_id_def map_of_modified)

lemma has_name_modified_None [simp]: "has_name x (modified r PNone rpo rsid at) = has_name x r"
  by (simp add: has_name_def map_of_modified)

lemma has_id_not_empty: "has_id i r \<Longrightarrow> r \<noteq> []"
  by (auto simp add: has_id_def)

lemma find_has_id: "find (has_id i) rs = Some r \<Longrightarrow> has_id i r \<and> r \<noteq> []"
  by (auto simp add: find_Some_iff has_id_def)

lemma find_replace_rule:
  assumes "find (has_id i) rs = Some r" and "has_id i r'"
  shows "find (has_id i) (replace_rule i r' rs) = Some r'"
  using assms by (induction rs) (auto split: if_splits)

lemma filter_replace_rule:
  assumes "find (has_id i) rs = Some r" and "has_id i r'" and "Q r' = Q r"
    and "filter Q rs = r0 # rest" and "has_id i r0"
  shows "\<exists>r1 rest1. filter Q (replace_rule i r' rs) = r1 # rest1 \<and> has_id i r1"
  using assms
proof (induction rs arbitrary: r0 rest)
  case Nil
  then show ?case by simp
next
  case (Cons x xs)
  show ?case
  proof (cases "has_id i x")
    case True
    with Cons.prems show ?thesis by (auto split: if_splits)
  next
    case False
    with Cons.prems have "\<not> Q x" by (auto split: if_splits)
    with False Cons show ?thesis by (auto split: if_splits)
  qed
qed

lemma id_length_le: "r \<in> set rs \<Longrightarrow> id_length r \<le> foldr max (map id_length rs) 0"
  by (induction rs) (auto simp add: max_def)

lemma fresh_id_fresh: "r \<in> set rs \<Longrightarrow> \<not> has_id (fresh_id rs) r"
  using id_length_le [of r rs] by (auto simp add: has_id_def fresh_id_def)

lemma find_append_None: "find Q xs = None \<Longrightarrow> find Q (xs @ ys) = find Q ys"
  by (induction xs) (auto split: if_splits)

lemma find_fresh:
  "find (has_id (fresh_id rs)) (rs @ [new_rule rs n rpo rsid at]) = Some (new_rule rs n rpo rsid at)"
proof -
  have "find (has_id (fresh_id rs)) rs = None"
    by (auto simp add: find_None_iff fresh_id_fresh)
  moreover have "has_id (fresh_id rs) (new_rule rs n rpo rsid at)"
    by (simp add: has_id_def new_rule_def)
  ultimately show ?thesis by (simp add: find_append_None)
qed

lemma found_after_modify:
  assumes "found P rules rid rname r"
    and "p_new_name P = None \<or> p_replication_rule_name P = None"
    and "desired_name P r = Some nm"
  shows "\<exists>rname'. found P (replace_rule rid (modified r (of_str (p_new_name P)) rpo rsid at) rules)
           rid rname' (modified r (of_str (p_new_name P)) rpo rsid at)"
proof -
  let ?r' = "modified r (of_str (p_new_name P)) rpo rsid at"
  from assms(1) have f: "find (has_id rid) rules = Some r" by (simp add: found_def)
  then have i: "has_id rid ?r'" using find_has_id [OF f] by simp
  note fr = find_replace_rule [OF f i]
  show ?thesis
  proof (cases "truthy (of_str (p_replication_rule_name P))")
    case True
    with assms(2) have nn: "p_new_name P = None" by (cases "p_replication_rule_name P") auto
    from True assms(1) obtain r0 rest where
      flt: "filter (has_name (of_str (p_replication_rule_name P))) rules = r0 # rest"
      and r0: "has_id rid r0"
      by (auto simp add: found_def split: list.splits)
    have "has_name (of_str (p_replication_rule_name P)) ?r' =
          has_name (of_str (p_replication_rule_name P)) r"
      by (simp add: nn)
    from filter_replace_rule [OF f i this flt r0] True assms(1) fr show ?thesis
      by (auto simp add: found_def)
  next
    case False
    have "\<exists>x. has_name x ?r'"
      using assms(3)
      by (cases "p_new_name P") (auto simp add: desired_name_def has_name_def map_of_modified)
    with False assms(1) fr show ?thesis by (auto simp add: found_def)
  qed
qed

lemma found_after_create:
  assumes "truthy (of_str (p_replication_rule_name P))" and "p_replication_rule_id P = None"
    and "filter (has_name (of_str (p_replication_rule_name P))) rules = []"
  shows "found P (rules @ [new_rule rules (of_str (p_replication_rule_name P)) rpo rsid at])
           (fresh_id rules) (of_str (p_replication_rule_name P))
           (new_rule rules (of_str (p_replication_rule_name P)) rpo rsid at)"
  using assms
  by (simp add: found_def find_fresh) (simp add: new_rule_def has_name_def has_id_def)

lemma not_required:
  assumes "\<And>k pv dv. map_of p k = Some pv \<Longrightarrow> pv \<noteq> PNone \<Longrightarrow> map_of d k = Some dv \<Longrightarrow> dv = pv"
  shows "\<not> modify_replication_rule_required d p"
  unfolding modify_replication_rule_required_def required_loop_iff
  using assms py_eq_refl by blast

lemma not_required_after_modify:
  assumes "desired_name P (modified r (of_str (p_new_name P)) (of_str (p_rpo P)) rsid
             (of_int_opt (p_alert_threshold P))) = Some nm"
  shows "\<not> modify_replication_rule_required
           (modified r (of_str (p_new_name P)) (of_str (p_rpo P)) rsid (of_int_opt (p_alert_threshold P)))
           (new_rep_rule_dict nm P rsid)"
proof (rule not_required)
  fix k pv dv
  assume "map_of (new_rep_rule_dict nm P rsid) k = Some pv" and "pv \<noteq> PNone"
    and "map_of (modified r (of_str (p_new_name P)) (of_str (p_rpo P)) rsid
           (of_int_opt (p_alert_threshold P))) k = Some dv"
  with assms show "dv = pv"
    by (cases "p_new_name P")
      (auto simp add: new_rep_rule_dict_def desired_name_def map_of_modified split: if_splits)
qed

lemma not_required_after_create:
  "\<not> modify_replication_rule_required (new_rule rules n (of_str (p_rpo P)) rsid (of_int_opt (p_alert_threshold P)))
       (new_rep_rule_dict n P rsid)"
proof (rule not_required)
  fix k pv dv
  assume "map_of (new_rep_rule_dict n P rsid) k = Some pv" and "pv \<noteq> PNone"
    and "map_of (new_rule rules n (of_str (p_rpo P)) rsid (of_int_opt (p_alert_threshold P))) k = Some dv"
  then show "dv = pv"
    by (auto simp add: new_rep_rule_dict_def new_rule_def split: if_splits)
qed

section \<open>The module on the simulated array\<close>

lemma frame_fetch_current:
  assumes "rule_compat R B"
  shows "frame_rel R (fetch_current B P)"
  using frame_get_replication_rule_details [OF assms]
  unfolding fetch_current_def
  by (auto intro!: frame_intros)

text \<open>The read methods of the simulated array.\<close>

lemma sim_cluster_compat:
  "a_clusters s' = a_clusters s \<Longrightarrow>
   compat (\<lambda>a b. a = s \<and> b = s') (provisioning_get_cluster_list sim)"
  by (simp add: compat_def sim_def sim_get_cluster_list_def)

lemma sim_remote_compat:
  "a_remote_systems s' = a_remote_systems s \<Longrightarrow> remote_compat (\<lambda>a b. a = s \<and> b = s') sim"
  by (simp add: remote_compat_def compat_def sim_def sim_get_remote_system_by_name_def
      sim_get_remote_system_details_def split: option.splits)

lemma sim_rule_compat: "rule_compat (\<lambda>a b. a = s \<and> b = s) sim"
  by (simp add: rule_compat_def compat_def sim_def sim_get_replication_rule_by_name_def
      sim_get_replication_rule_details_def split: option.splits)

lemma frame_rel_state:
  assumes "frame_rel (\<lambda>a b. a = bstate w \<and> b = bstate w) m" and "m w = (r, w')"
  shows "bstate w' = bstate w"
  using assms unfolding frame_rel_def by (metis snd_conv)

lemma sim_resolve_cluster_state: "resolve_cluster sim w = (r, w') \<Longrightarrow> bstate w' = bstate w"
  by (rule frame_rel_state [OF frame_resolve_cluster [OF sim_cluster_compat]]) simp_all

lemma sim_resolve_remote_system_state:
  "resolve_remote_system sim P w = (r, w') \<Longrightarrow> bstate w' = bstate w"
  by (rule frame_rel_state [OF frame_resolve_remote_system [OF sim_remote_compat]]) simp_all

lemma sim_fetch_current_state: "fetch_current sim P w = (r, w') \<Longrightarrow> bstate w' = bstate w"
  by (rule frame_rel_state [OF frame_fetch_current [OF sim_rule_compat]]) simp_all

lemma sim_show_output_state: "show_output sim rid a w = (r, w') \<Longrightarrow> bstate w' = bstate w"
  by (rule frame_rel_state [OF frame_show_output [OF sim_rule_compat sim_remote_compat]]) simp_all

lemma second_prefix:
  assumes "resolve_cluster sim w = (Inr u, wa)"
    and "resolve_remote_system sim P wa = (Inr rsid, wb)"
    and "a_clusters s' = a_clusters (bstate w)"
    and "a_remote_systems s' = a_remote_systems (bstate w)"
    and "bstate v = s'"
  shows "\<exists>va vb. resolve_cluster sim v = (Inr u, va) \<and>
           resolve_remote_system sim P va = (Inr rsid, vb) \<and> bstate vb = s'"
proof -
  let ?R = "\<lambda>a b. a = bstate w \<and> b = s'"
  have 1: "frame_rel ?R (resolve_cluster sim)"
    by (rule frame_resolve_cluster [OF sim_cluster_compat [OF assms(3)]])
  have 2: "frame_rel ?R (resolve_remote_system sim P)"
    by (rule frame_resolve_remote_system [OF sim_remote_compat [OF assms(4)]])
  from frame_relD [OF 1 _ assms(1), of v] assms(5) obtain va where
    va: "resolve_cluster sim v = (Inr u, va)" and ra: "?R (bstate wa) (bstate va)"
    by auto
  from frame_relD [OF 2 ra assms(2)] obtain vb where
    "resolve_remote_system sim P va = (Inr rsid, vb)" and "?R (bstate wb) (bstate vb)"
    by auto
  with va show ?thesis by auto
qed

lemma filter_find_has_id:
  assumes "filter Q rs = r0 # rest" and "has_id i r0"
  shows "find (has_id i) rs \<noteq> None"
proof -
  from assms(1) have "r0 \<in> set (filter Q rs)" by simp
  then have "r0 \<in> set rs" by simp
  with assms(2) show ?thesis by (auto simp add: find_None_iff)
qed

lemma fetch_found:
  assumes "found P (a_rules (bstate v)) rid rname r"
  shows "\<exists>v'. fetch_current sim P v = (Inr (rid, rname, Some r), v') \<and> bstate v' = bstate v"
proof -
  from assms have f: "find (has_id rid) (a_rules (bstate v)) = Some r"
    by (simp add: found_def)
  then have r: "r \<noteq> []" "map_of r ''id'' = Some rid"
    using find_has_id [OF f] by (simp_all add: has_id_def)
  show ?thesis
  proof (cases "truthy (of_str (p_replication_rule_name P))")
    case True
    with assms obtain r0 rest where
      "filter (has_name (of_str (p_replication_rule_name P))) (a_rules (bstate v)) = r0 # rest"
      and "map_of r0 ''id'' = Some rid" and "p_replication_rule_id P = None"
      and "rname = of_str (p_replication_rule_name P)"
      by (auto simp add: found_def has_id_def split: list.splits)
    with True f r show ?thesis
      by (simp add: fetch_current_def get_replication_rule_details_def try_except_def seq_def
          sdk_call_def sim_def sim_get_replication_rule_by_name_def
          sim_get_replication_rule_details_def getitem_def getitem_opt_def ret_def)
  next
    case False
    with assms have "rid = of_str (p_replication_rule_id P)" and "map_of r ''name'' = Some rname"
      by (simp_all add: found_def has_name_def)
    with False f r show ?thesis
      by (simp add: fetch_current_def get_replication_rule_details_def try_except_def seq_def
          sdk_call_def sim_def sim_get_replication_rule_details_def getitem_def getitem_opt_def
          ret_def)
  qed
qed

lemma sim_get_rule:
  assumes "get_replication_rule_details sim n i w = (Inr d, w')"
  shows "case d of
           Some r \<Rightarrow>
             (if truthy n
              then \<exists>r0 rest j. filter (has_name n) (a_rules (bstate w)) = r0 # rest \<and>
                     has_id j r0 \<and> find (has_id j) (a_rules (bstate w)) = Some r
              else find (has_id i) (a_rules (bstate w)) = Some r)
         | None \<Rightarrow> truthy n \<longrightarrow> filter (has_name n) (a_rules (bstate w)) = []"
  using assms
  apply (simp add: get_replication_rule_details_def)
  apply (erule try_exceptE)
   apply (auto simp add: get_details_except_def Let_def sim_def has_id_def
      sim_get_replication_rule_by_name_def sim_get_replication_rule_details_def
      elim!: seqE sdk_callE getitemE
      split: if_splits list.splits option.splits)
  apply (metis filter_find_has_id has_id_def)
  done

lemma fetch_current_Inr:
  assumes "fetch_current B P w = (Inr (rid, rname, d), w')"
  shows "get_replication_rule_details B (of_str (p_replication_rule_name P))
           (of_str (p_replication_rule_id P)) w = (Inr d, w') \<and>
         (if truthy_dict d \<and> \<not> truthy (of_str (p_replication_rule_id P))
          then \<exists>r. d = Some r \<and> map_of r ''id'' = Some rid
          else rid = of_str (p_replication_rule_id P)) \<and>
         (if truthy_dict d \<and> \<not> truthy (of_str (p_replication_rule_name P))
          then \<exists>r. d = Some r \<and> map_of r ''name'' = Some rname
          else rname = of_str (p_replication_rule_name P))"
  using assms unfolding fetch_current_def
  by (auto elim!: seqE getitem_optE split: if_splits)

lemma fetch_extract:
  assumes "valid_params P" and "fetch_current sim P w = (Inr (rid, rname, d), w')"
  shows "case d of
           Some r \<Rightarrow> found P (a_rules (bstate w)) rid rname r
         | None \<Rightarrow> rid = of_str (p_replication_rule_id P) \<and>
             rname = of_str (p_replication_rule_name P) \<and>
             (truthy (of_str (p_replication_rule_name P)) \<longrightarrow>
                filter (has_name (of_str (p_replication_rule_name P))) (a_rules (bstate w)) = [])"
proof -
  note parts = fetch_current_Inr [OF assms(2)]
  from parts have
    l: "get_replication_rule_details sim (of_str (p_replication_rule_name P))
          (of_str (p_replication_rule_id P)) w = (Inr d, w')" by simp
  show ?thesis
  proof (cases d)
    case None
    with sim_get_rule [OF l] parts show ?thesis by simp
  next
    case (Some r)
    show ?thesis
    proof (cases "truthy (of_str (p_replication_rule_name P))")
      case True
      with assms(1) have noid: "p_replication_rule_id P = None"
        by (cases "p_replication_rule_name P") (auto simp add: valid_params_def)
      from True Some sim_get_rule [OF l] obtain r0 rest j where
        flt: "filter (has_name (of_str (p_replication_rule_name P))) (a_rules (bstate w)) = r0 # rest"
        and j: "has_id j r0" and f: "find (has_id j) (a_rules (bstate w)) = Some r"
        by auto
      from find_has_id [OF f] have "r \<noteq> []" and "map_of r ''id'' = Some j"
        by (simp_all add: has_id_def)
      with parts Some noid have "rid = j" by simp
      with True Some noid flt j f parts show ?thesis
        by (simp add: found_def)
    next
      case False
      with Some sim_get_rule [OF l]
      have f: "find (has_id (of_str (p_replication_rule_id P))) (a_rules (bstate w)) = Some r"
        by simp
      from find_has_id [OF f] have r: "r \<noteq> []"
        and i: "map_of r ''id'' = Some (of_str (p_replication_rule_id P))"
        by (simp_all add: has_id_def)
      from parts Some r i have "rid = of_str (p_replication_rule_id P)"
        by (auto split: if_splits)
      moreover from parts Some r False have "map_of r ''name'' = Some rname"
        by simp
      ultimately show ?thesis using False Some f
        by (simp add: found_def has_name_def)
    qed
  qed
qed

lemma create_block_Inr:
  assumes "create_block B P rsid (c, rid, rname, d) w = (Inr (c1, rid1, d1), w')"
    and "\<not> truthy_dict d" and "p_state P = present"
  shows "p_new_name P = None \<and> truthy rname \<and>
         (\<exists>dd. create_replication_rule B rname (of_str (p_rpo P)) rsid
                  (of_int_opt (p_alert_threshold P)) w = (Inr (c1, Some dd), w') \<and>
               d1 = Some dd \<and> map_of dd ''id'' = Some rid1)"
  using assms unfolding create_block_def
  by (auto simp add: blank_name_def strip_def elim!: seqE getitem_optE
      split: if_splits pyval.splits)

lemma create_replication_rule_sim:
  assumes "create_replication_rule sim n rpo rsid at w = (Inr (c, Some dd), w')"
  shows "c \<and> dd = new_rule (a_rules (bstate w)) n rpo rsid at \<and>
         bstate w' = (bstate w)\<lparr>a_rules := a_rules (bstate w) @
            [new_rule (a_rules (bstate w)) n rpo rsid at]\<rparr>"
  using assms
  apply (simp add: create_replication_rule_def)
  apply (erule try_exceptE)
   apply (auto simp add: sim_def sim_create_replication_rule_def
      sim_get_replication_rule_details_def dict_get_def find_fresh
      elim!: seqE sdk_callE split: if_splits)
  done

lemma update_block_sim:
  assumes "update_block sim P rsid rid (c, Some r) w = (Inr (c3, d3), w')"
    and "p_state P = present" and "r \<noteq> []"
    and "find (has_id rid) (a_rules (bstate w)) = Some r"
  shows "\<exists>nm. desired_name P r = Some nm \<and>
           (if modify_replication_rule_required r (new_rep_rule_dict nm P rsid)
            then c3 \<and>
              d3 = Some (modified r (of_str (p_new_name P)) (of_str (p_rpo P)) rsid
                           (of_int_opt (p_alert_threshold P))) \<and>
              bstate w' = (bstate w)\<lparr>a_rules := replace_rule rid
                 (modified r (of_str (p_new_name P)) (of_str (p_rpo P)) rsid
                    (of_int_opt (p_alert_threshold P))) (a_rules (bstate w))\<rparr>
            else c3 = c \<and> d3 = Some r \<and> w' = w)"
proof -
  from assms(1,2,3) obtain nm where nm: "desired_name P r = Some nm"
    by (cases "p_new_name P")
      (auto simp add: update_block_def desired_name_def elim!: seqE getitemE)
  then have d: "(case p_new_name P of None \<Rightarrow> map_of r ''name'' | Some n \<Rightarrow> Some (PStr n)) = Some nm"
    by (simp add: desired_name_def)
  note eq = update_block_decides [OF assms(3,2) d, of sim rsid rid c w]
  show ?thesis
  proof (cases "modify_replication_rule_required r (new_rep_rule_dict nm P rsid)")
    case False
    with eq assms(1) nm show ?thesis by auto
  next
    case True
    with eq assms(1) have
      "modify_replication_rule sim rid (of_str (p_new_name P)) (of_str (p_rpo P)) rsid
         (of_int_opt (p_alert_threshold P)) w = (Inr (c3, d3), w')"
      by simp
    with assms(4) have "c3 \<and>
              d3 = Some (modified r (of_str (p_new_name P)) (of_str (p_rpo P)) rsid
                           (of_int_opt (p_alert_threshold P))) \<and>
              bstate w' = (bstate w)\<lparr>a_rules := replace_rule rid
                 (modified r (of_str (p_new_name P)) (of_str (p_rpo P)) rsid
                    (of_int_opt (p_alert_threshold P))) (a_rules (bstate w))\<rparr>"
      apply (simp add: modify_replication_rule_def)
      apply (erule try_exceptE)
       apply (auto simp add: sim_def sim_modify_replication_rule_def elim!: seqE sdk_callE)
      done
    with True nm show ?thesis by auto
  qed
qed

section \<open>A second invocation\<close>

lemma settled_second_run:
  assumes c1: "resolve_cluster sim (init_world s) = (Inr u, wa)"
    and c2: "resolve_remote_system sim P wa = (Inr rsid, wb)"
    and st: "p_state P = present"
    and same: "a_clusters (bstate we) = a_clusters s" "a_remote_systems (bstate we) = a_remote_systems s"
    and fnd: "found P (a_rules (bstate we)) rid1 rn r3"
    and dn: "desired_name P r3 = Some nm"
    and nr: "\<not> modify_replication_rule_required r3 (new_rep_rule_dict nm P rsid)"
    and out: "project_output sim P rid1 (c3, Some r3) we = (Inr res1, w1)"
  shows "\<exists>w2. perform_module_operation sim P (init_world (bstate w1)) =
                (Inr \<lparr>r_changed = False,
                      r_replication_rule_details = r_replication_rule_details res1\<rparr>, w2) \<and>
              bstate w2 = bstate w1"
proof -
  from fnd have r3: "r3 \<noteq> []"
    using find_has_id [of rid1 "a_rules (bstate we)" r3] by (simp add: found_def)
  from out st r3 obtain x where
    so: "show_output sim rid1 (of_str (p_remote_system_address P)) we = (Inr x, w1)"
    and res: "r_replication_rule_details res1 = x"
    by (auto simp add: project_output_def elim!: seqE)
  have b1: "bstate w1 = bstate we" by (rule sim_show_output_state [OF so])
  from second_prefix [OF c1 c2, of "bstate w1" "init_world (bstate w1)"] same b1
  obtain va vb where
    va: "resolve_cluster sim (init_world (bstate w1)) = (Inr u, va)"
    and vb: "resolve_remote_system sim P va = (Inr rsid, vb)"
    and bvb: "bstate vb = bstate w1"
    by (auto simp add: init_world_def)
  from fetch_found [of P vb rid1 rn r3] fnd bvb b1 obtain vc where
    vc: "fetch_current sim P vb = (Inr (rid1, rn, Some r3), vc)" and bvc: "bstate vc = bstate w1"
    by auto
  from dn have dn': "(case p_new_name P of None \<Rightarrow> map_of r3 ''name'' | Some n \<Rightarrow> Some (PStr n)) = Some nm"
    by (simp add: desired_name_def)
  have "perform_module_operation sim P (init_world (bstate w1)) =
        project_output sim P rid1 (False, Some r3) vc"
    using perform_resolved [OF va vb vc] reconcile_no_op [OF r3 st dn' nr, of sim rid1 rn vc]
    by simp
  moreover from show_output_same_array [OF so, of vc] bvc b1 obtain v' where
    "show_output sim rid1 (of_str (p_remote_system_address P)) vc = (Inr x, v')"
    and "bstate v' = bstate w1"
    by auto
  ultimately show ?thesis using st r3 res
    by (auto simp add: project_output_def seq_def ret_def)
qed

text \<open>
  C2, as the code has it.  On the simulated array, which stores what create and
  modify are given and whose reads change nothing: for a request that
  \<^verbatim>\<open>AnsibleModule\<close> accepts, with \<^verbatim>\<open>state: present\<close>, and with no new name or with the
  rule given by id, when a first invocation succeeds, a second invocation of the same
  request on the array that the first one left succeeds with \<^verbatim>\<open>changed\<close> false,
  reports the same object and leaves the array as it is.
\<close>

theorem second_invocation_unchanged:
  assumes valid: "valid_params P" and st: "p_state P = present"
    and nn: "p_new_name P = None \<or> p_replication_rule_name P = None"
    and run1: "perform_module_operation sim P (init_world s) = (Inr res1, w1)"
  shows "\<exists>w2. perform_module_operation sim P (init_world (bstate w1)) =
                (Inr \<lparr>r_changed = False,
                      r_replication_rule_details = r_replication_rule_details res1\<rparr>, w2) \<and>
              bstate w2 = bstate w1"
  using run1
proof (cases rule: perform_cases)
  case (reconciled wa rsid wb rid rname d wc)
  have bwa: "bstate wa = s"
    using sim_resolve_cluster_state [OF reconciled(1)] by (simp add: init_world_def)
  have bwb: "bstate wb = s"
    using sim_resolve_remote_system_state [OF reconciled(2)] bwa by simp
  have bwc: "bstate wc = s"
    using sim_fetch_current_state [OF reconciled(3)] bwb by simp
  note ext = fetch_extract [OF valid reconciled(3)]
  from reconciled(4) show ?thesis
  proof (cases rule: reconcile_cases)
    case (reported ch1 rid1 d1 wd v2 wd' v3 we)
    from reported(2) st have del: "v2 = (ch1, d1)" "wd' = wd"
      by (auto simp add: delete_block_def)
    obtain ch3 d3 where v3: "v3 = (ch3, d3)" by (cases v3)
    note upd = reported(3) [unfolded del v3]
    note out = reported(4) [unfolded v3]
    show ?thesis
    proof (cases d)
      case None
      with ext bwb have ids: "rid = of_str (p_replication_rule_id P)"
        "rname = of_str (p_replication_rule_name P)"
        and nomatch: "truthy (of_str (p_replication_rule_name P)) \<longrightarrow>
           filter (has_name (of_str (p_replication_rule_name P))) (a_rules s) = []"
        by simp_all
      from create_block_Inr [OF reported(1) [unfolded None] _ st]
      obtain dd where nonew: "p_new_name P = None" and tn: "truthy rname"
        and cr: "create_replication_rule sim rname (of_str (p_rpo P)) rsid
                  (of_int_opt (p_alert_threshold P)) wc = (Inr (ch1, Some dd), wd)"
        and d1: "d1 = Some dd" and rid1: "map_of dd ''id'' = Some rid1"
        by auto
      let ?nr = "new_rule (a_rules s) rname (of_str (p_rpo P)) rsid (of_int_opt (p_alert_threshold P))"
      from create_replication_rule_sim [OF cr] bwc have dd: "dd = ?nr"
        and bwd: "bstate wd = s\<lparr>a_rules := a_rules s @ [?nr]\<rparr>"
        by simp_all
      from rid1 dd have rid1': "rid1 = fresh_id (a_rules s)" by (simp add: new_rule_def)
      from tn ids valid have noid: "p_replication_rule_id P = None"
        by (cases "p_replication_rule_name P") (auto simp add: valid_params_def)
      from tn ids nomatch noid
      have fnd: "found P (a_rules (bstate wd)) rid1 rname ?nr"
        using found_after_create [of P "a_rules s" "of_str (p_rpo P)" rsid
            "of_int_opt (p_alert_threshold P)"]
        by (simp add: bwd rid1')
      have ne: "?nr \<noteq> []" by (simp add: new_rule_def)
      from fnd have f: "find (has_id rid1) (a_rules (bstate wd)) = Some ?nr"
        by (simp add: found_def)
      have dn: "desired_name P ?nr = Some rname"
        by (simp add: desired_name_def nonew new_rule_def)
      note nrq = not_required_after_create [of "a_rules s" rname P rsid]
      from update_block_sim [OF upd [unfolded d1 dd] st ne f] dn nrq
      have "d3 = Some ?nr" and "we = wd" by auto
      with out fnd dn nrq bwd show ?thesis
        by (intro settled_second_run [OF reconciled(1,2) st _ _ _ dn nrq, of we rid1 rname ch3 res1 w1])
          simp_all
    next
      case (Some r)
      with ext bwb have fnd: "found P (a_rules s) rid rname r" by simp
      then have f: "find (has_id rid) (a_rules s) = Some r" by (simp add: found_def)
      from find_has_id [OF f] have ne: "r \<noteq> []" by simp
      from reported(1) Some ne have cb: "ch1 = False" "rid1 = rid" "d1 = Some r" "wd = wc"
        by (auto simp add: create_block_def)
      from update_block_sim [OF upd [unfolded cb] st ne] f bwc obtain nm where
        dn: "desired_name P r = Some nm"
        and ub: "if modify_replication_rule_required r (new_rep_rule_dict nm P rsid)
            then ch3 \<and>
              d3 = Some (modified r (of_str (p_new_name P)) (of_str (p_rpo P)) rsid
                           (of_int_opt (p_alert_threshold P))) \<and>
              bstate we = s\<lparr>a_rules := replace_rule rid
                 (modified r (of_str (p_new_name P)) (of_str (p_rpo P)) rsid
                    (of_int_opt (p_alert_threshold P))) (a_rules s)\<rparr>
            else ch3 = False \<and> d3 = Some r \<and> we = wc"
        by auto
      show ?thesis
      proof (cases "modify_replication_rule_required r (new_rep_rule_dict nm P rsid)")
        case False
        with ub have "d3 = Some r" and "we = wc" by simp_all
        with out fnd dn False bwc cb show ?thesis
          by (intro settled_second_run [OF reconciled(1,2) st _ _ _ dn False, of we rid1 rname ch3 res1 w1])
            simp_all
      next
        case True
        let ?m = "modified r (of_str (p_new_name P)) (of_str (p_rpo P)) rsid
                    (of_int_opt (p_alert_threshold P))"
        from True ub have d3: "d3 = Some ?m"
          and bwe: "bstate we = s\<lparr>a_rules := replace_rule rid ?m (a_rules s)\<rparr>"
          by simp_all
        from found_after_modify [OF fnd nn dn, of "of_str (p_rpo P)" rsid
            "of_int_opt (p_alert_threshold P)"]
        obtain rn where fnd': "found P (replace_rule rid ?m (a_rules s)) rid rn ?m"
          by auto
        from dn obtain nm' where dn': "desired_name P ?m = Some nm'"
          by (cases "p_new_name P") (auto simp add: desired_name_def map_of_modified)
        note nrq = not_required_after_modify [OF dn']
        from out d3 fnd' bwe cb show ?thesis
          by (intro settled_second_run [OF reconciled(1,2) st _ _ _ dn' nrq, of we rid1 rn ch3 res1 w1])
            simp_all
      qed
    qed
  qed simp_all
qed simp_all

theorem second_invocation_unchanged_witness:
  "valid_params P_create \<and> p_state P_create = present \<and> p_new_name P_create = None \<and>
   fst (perform_module_operation sim P_create (init_world array0)) =
     Inr \<lparr>r_changed = True,
          r_replication_rule_details =
            Some [(''id'', PStr ''rrrrrrr''), (''name'', PStr ''N''), (''rpo'', PStr ''Five_Minutes''),
                  (''remote_system_id'', PStr ''#rs3''), (''alert_threshold'', PInt 15),
                  (''is_replica'', PBool False), (''policies'', PList []),
                  (''remote_system_name'', PStr ''RS3'')]\<rparr> \<and>
   (\<exists>w2. perform_module_operation sim P_create
           (init_world (bstate (snd (perform_module_operation sim P_create (init_world array0))))) =
           (Inr \<lparr>r_changed = False,
                 r_replication_rule_details =
                   Some [(''id'', PStr ''rrrrrrr''), (''name'', PStr ''N''), (''rpo'', PStr ''Five_Minutes''),
                         (''remote_system_id'', PStr ''#rs3''), (''alert_threshold'', PInt 15),
                         (''is_replica'', PBool False), (''policies'', PList []),
                         (''remote_system_name'', PStr ''RS3'')]\<rparr>, w2) \<and>
         bstate w2 = bstate (snd (perform_module_operation sim P_create (init_world array0))))"
proof -
  have v: "valid_params P_create" and p: "p_state P_create = present"
    and n: "p_new_name P_create = None"
    by code_simp+
  have f: "fst (perform_module_operation sim P_create (init_world array0)) =
     Inr \<lparr>r_changed = True,
          r_replication_rule_details =
            Some [(''id'', PStr ''rrrrrrr''), (''name'', PStr ''N''), (''rpo'', PStr ''Five_Minutes''),
                  (''remote_system_id'', PStr ''#rs3''), (''alert_threshold'', PInt 15),
                  (''is_replica'', PBool False), (''policies'', PList []),
                  (''remote_system_name'', PStr ''RS3'')]\<rparr>"
    by code_simp
  then have h: "perform_module_operation sim P_create (init_world array0) =
     (Inr \<lparr>r_changed = True,
          r_replication_rule_details =
            Some [(''id'', PStr ''rrrrrrr''), (''name'', PStr ''N''), (''rpo'', PStr ''Five_Minutes''),
                  (''remote_system_id'', PStr ''#rs3''), (''alert_threshold'', PInt 15),
                  (''is_replica'', PBool False), (''policies'', PList []),
                  (''remote_system_name'', PStr ''RS3'')]\<rparr>,
      snd (perform_module_operation sim P_create (init_world array0)))"
    by (metis prod.collapse)
  from second_invocation_unchanged [OF v p _ h] n v p f show ?thesis by simp
qed

text \<open>
  C2 as stated fails.  A request that renames the rule \<^verbatim>\<open>A\<close>, given by name, to \<^verbatim>\<open>B\<close>
  succeeds with \<^verbatim>\<open>changed\<close> true; invoked again on the array it left, it finds no
  rule named \<^verbatim>\<open>A\<close>, enters the create path and fails there because a new name is
  passed.
\<close>

theorem rename_by_name_twice:
  "fst (perform_module_operation sim P_rename_again (init_world array0)) =
     Inr \<lparr>r_changed = True,
          r_replication_rule_details =
            Some [(''id'', PStr ''#rule1''), (''name'', PStr ''B''), (''rpo'', PStr ''One_Hour''),
                  (''remote_system_id'', PStr ''#rs3''), (''alert_threshold'', PInt 60),
                  (''remote_system_name'', PStr ''RS3'')]\<rparr> \<and>
   fst (perform_module_operation sim P_rename_again
          (init_world (bstate (snd (perform_module_operation sim P_rename_again (init_world array0))))))
     = Inl (Fail_json new_name_passed_msg None)"
  by code_simp

end
